theory Spec2Isabelle
  imports Main "HOL-Library.Sublist"
begin

section \<open>Python values\<close>

text \<open>
  The values that flow through the service are what Python's \<^verbatim>\<open>json\<close> module produces and
  what the result dictionaries hold: \<^verbatim>\<open>None\<close>, booleans, integers, floats, strings, lists and
  dictionaries with string keys. A dictionary is an association list with distinct keys, in
  the order the source writes them. A float is kept by its \<^verbatim>\<open>repr\<close>; the code never computes
  with one.
\<close>

datatype json =
    JNull
  | JBool bool
  | JInt int
  | JFloat string
  | JStr string
  | JList "json list"
  | JDict "(string \<times> json) list"

type_synonym result = "(string \<times> json) list"

text \<open>Truthiness of an \<^verbatim>\<open>Optional[str]\<close>: \<^verbatim>\<open>None\<close> and the empty string are falsy.\<close>

fun truthy :: "string option \<Rightarrow> bool" where
  "truthy None = False"
| "truthy (Some s) = (s \<noteq> [])"

text \<open>\<^verbatim>\<open>a or b\<close> on two optional strings: the first if it is truthy, else the second.\<close>

definition py_or :: "string option \<Rightarrow> string option \<Rightarrow> string option" where
  "py_or a b = (if truthy a then a else b)"

text \<open>Truthiness of a JSON value, as \<^verbatim>\<open>not x\<close> and \<^verbatim>\<open>if x\<close> read it.\<close>

fun truthy_json :: "json \<Rightarrow> bool" where
  "truthy_json JNull = False"
| "truthy_json (JBool b) = b"
| "truthy_json (JInt i) = (i \<noteq> 0)"
| "truthy_json (JFloat r) = (r \<noteq> ''0.0'' \<and> r \<noteq> ''-0.0'')"
| "truthy_json (JStr s) = (s \<noteq> [])"
| "truthy_json (JList xs) = (xs \<noteq> [])"
| "truthy_json (JDict kvs) = (kvs \<noteq> [])"

text \<open>\<^verbatim>\<open>d.get(k, default)\<close> on a dictionary.\<close>

definition dict_get :: "(string \<times> json) list \<Rightarrow> string \<Rightarrow> json \<Rightarrow> json" where
  "dict_get d k dflt = (case map_of d k of Some v \<Rightarrow> v | None \<Rightarrow> dflt)"

text \<open>\<^verbatim>\<open>str(n)\<close> for an integer: decimal digits, with a minus sign when negative.\<close>

fun show_nat :: "nat \<Rightarrow> string" where
  "show_nat n =
     (if n < 10 then [''0123456789'' ! n]
      else show_nat (n div 10) @ [''0123456789'' ! (n mod 10)])"

definition show_int :: "int \<Rightarrow> string" where
  "show_int i = (if i < 0 then CHR ''-'' # show_nat (nat (- i)) else show_nat (nat i))"

text \<open>
  A triple-quoted literal that opens with a line break and ends every line with one:
  the text is a line break followed by the lines, each closed by a line break.
\<close>

definition text_block :: "string list \<Rightarrow> string" where
  "text_block ls = ''\<newline>'' @ concat (map (\<lambda>l. l @ ''\<newline>'') ls)"

text \<open>The bullet character U+2022 of the source's texts, in UTF-8.\<close>

definition bullet :: string where
  "bullet = [CHR 0xE2, CHR 0x80, CHR 0xA2]"

section \<open>Settings (config.py)\<close>

text \<open>The fields of \<^verbatim>\<open>Settings\<close> that the authentication configuration reads.\<close>

record settings =
  graph_tenant_id :: "string option"
  graph_client_id :: string
  custom_client_id :: "string option"
  custom_tenant_id :: "string option"
  custom_client_secret :: "string option"
  use_app_reg_clientid :: "string option"
  tenantid :: "string option"
  client_secret :: "string option"
  graph_client_secret :: "string option"

text \<open>
  The dictionary that \<^verbatim>\<open>get_auth_config\<close> returns always has the same five keys; it is a
  record here. \<^verbatim>\<open>mode\<close> and \<^verbatim>\<open>auth_mode\<close> are the strings the source writes.
\<close>

record auth_config =
  mode :: string
  client_id :: string
  tenant_id :: string
  auth_mode :: string
  scopes :: "string list"

text \<open>
  \<^verbatim>\<open>Settings.get_auth_config\<close>. The test \<^verbatim>\<open>if client_id and tenant_id\<close> holds when both
  resolved values are non-empty strings.
\<close>

definition get_auth_config :: "settings \<Rightarrow> auth_config" where
  "get_auth_config self =
     (let client_id = py_or (use_app_reg_clientid self) (custom_client_id self);
          tenant_id = py_or (tenantid self) (custom_tenant_id self);
          default_config =
            \<lparr> mode = ''default'',
              client_id = graph_client_id self,
              tenant_id = (case graph_tenant_id self of
                             Some t \<Rightarrow> if t \<noteq> [] then t else ''common''
                           | None \<Rightarrow> ''common''),
              auth_mode = ''device_code'',
              scopes = [''https://graph.microsoft.com/.default''] \<rparr>
      in case (client_id, tenant_id) of
           (Some c, Some t) \<Rightarrow>
             if c \<noteq> [] \<and> t \<noteq> [] then
               \<lparr> mode = ''custom'',
                 client_id = c,
                 tenant_id = t,
                 auth_mode = ''client_secret'',
                 scopes = [''https://graph.microsoft.com/.default''] \<rparr>
             else default_config
         | _ \<Rightarrow> default_config)"

text \<open>\<^verbatim>\<open>Settings.get_client_secret\<close>.\<close>

definition get_client_secret :: "settings \<Rightarrow> string option" where
  "get_client_secret self =
     py_or (py_or (client_secret self) (custom_client_secret self)) (graph_client_secret self)"

text \<open>\<^verbatim>\<open>Settings.is_read_only_mode\<close>.\<close>

definition is_read_only_mode :: "settings \<Rightarrow> bool" where
  "is_read_only_mode self =
     (let client_id = py_or (use_app_reg_clientid self) (custom_client_id self);
          tenant_id = py_or (tenantid self) (custom_tenant_id self)
      in \<not> (truthy client_id \<and> truthy tenant_id))"

section \<open>The Graph service (services/graph_service.py)\<close>

subsection \<open>Exceptions, credentials and the outside world\<close>

text \<open>
  An exception is kept by its class, as far as the handlers of \<^verbatim>\<open>execute_command\<close> tell
  classes apart, and by its \<^verbatim>\<open>str\<close>. \<^verbatim>\<open>asyncio.TimeoutError\<close>, \<^verbatim>\<open>json.JSONDecodeError\<close> and
  \<^verbatim>\<open>AttributeError\<close> are subclasses of \<^verbatim>\<open>Exception\<close>, as is every class gathered under
  \<open>OtherException\<close>. \<open>BaseExceptionOnly\<close> stands for the classes that derive from
  \<^verbatim>\<open>BaseException\<close> but not from \<^verbatim>\<open>Exception\<close>: \<^verbatim>\<open>asyncio.CancelledError\<close>,
  \<^verbatim>\<open>KeyboardInterrupt\<close>, \<^verbatim>\<open>SystemExit\<close>. A clause \<^verbatim>\<open>except Exception\<close> does not match them.
\<close>

datatype exc_class =
    AsyncioTimeoutError
  | JSONDecodeError
  | AttributeError
  | OtherException
  | BaseExceptionOnly

datatype py_exc = PyExc (exc_class: exc_class) (exc_str: string)

definition is_Exception :: "exc_class \<Rightarrow> bool" where
  "is_Exception c = (c \<noteq> BaseExceptionOnly)"

text \<open>
  The two credential classes of \<^verbatim>\<open>azure.identity\<close>, with the arguments the source passes:
  \<^verbatim>\<open>ClientSecretCredential(tenant_id, client_id, client_secret)\<close> and
  \<^verbatim>\<open>DeviceCodeCredential(client_id, tenant_id, prompt_callback)\<close>, whose callback is always
  \<^verbatim>\<open>self._device_code_callback\<close>.
\<close>

datatype credential =
    ClientSecretCredential string string "string option"
  | DeviceCodeCredential string string

record device_code =
  verification_uri :: string
  user_code :: string
  expires_in :: int

text \<open>
  A call of \<^verbatim>\<open>httpx.AsyncClient\<close>: the method called, the URL, the headers, and the \<^verbatim>\<open>json\<close>
  keyword argument (\<open>None\<close> when the call passes none, \<open>Some data\<close> when it passes
  \<^verbatim>\<open>json=data\<close>, where \<open>data\<close> itself may be \<^verbatim>\<open>None\<close>).
\<close>

record http_request =
  http_method :: string
  url :: string
  headers :: "(string \<times> string) list"
  json_kw :: "json option option"

text \<open>
  A response: its status, its text (\<^verbatim>\<open>response.text\<close>), and what \<^verbatim>\<open>response.json()\<close> does on it (the parsed
  body, or the exception it raises).
\<close>

record http_response =
  status_code :: int
  resp_text :: string
  json_result :: "py_exc + json"

text \<open>
  What awaiting \<^verbatim>\<open>credential.get_token(*scopes)\<close> under \<^verbatim>\<open>asyncio.wait_for(..., timeout=3.0)\<close>
  does: whether the provider called the prompt callback (and with which arguments) before the
  await ended, and how the await ended: with the token, or with an exception
  (\<^verbatim>\<open>asyncio.TimeoutError\<close> when the three seconds ran out).
\<close>

record acquisition =
  prompt :: "(string \<times> string \<times> int) option"
  outcome :: "py_exc + string"

text \<open>
  The outside world during one call: the constructors of the credential classes (which may
  raise), token acquisition, the HTTP client, and two built-ins of Python that are taken as
  they are: \<^verbatim>\<open>repr\<close> of lists and dictionaries, and \<^verbatim>\<open>str.upper\<close>, which follows the Unicode case
  mapping (so that a string with non-ASCII letters can upper-case to an ASCII word).
  Logging, and opening and closing the \<^verbatim>\<open>httpx.AsyncClient\<close>, have no effect on the result and
  are left out.
\<close>

record env =
  construct :: "credential \<Rightarrow> py_exc option"
  get_token :: "credential \<Rightarrow> string list \<Rightarrow> acquisition"
  send :: "http_request \<Rightarrow> py_exc + http_response"
  repr :: "json \<Rightarrow> string"
  str_upper :: "string \<Rightarrow> string"

text \<open>What a call does to the outside world, in order.\<close>

datatype event =
    Construct credential
  | GetToken credential "string list"
  | HttpCall http_request

subsection \<open>The service object\<close>

record graph_service =
  device_code_info :: "device_code option"
  credential :: "credential option"
  client_secret :: "string option"
  auth_config :: auth_config

text \<open>\<^verbatim>\<open>GraphService.__init__\<close>.\<close>

definition GraphService_init :: "settings \<Rightarrow> graph_service" where
  "GraphService_init settings =
     \<lparr> device_code_info = None,
       credential = None,
       client_secret = get_client_secret settings,
       auth_config = get_auth_config settings \<rparr>"

text \<open>\<^verbatim>\<open>GraphService._device_code_callback\<close>.\<close>

definition device_code_callback :: "graph_service \<Rightarrow> string \<Rightarrow> string \<Rightarrow> int \<Rightarrow> graph_service" where
  "device_code_callback self uri code expires =
     self\<lparr>device_code_info :=
       Some \<lparr>verification_uri = uri, user_code = code, expires_in = expires\<rparr>\<rparr>"

subsection \<open>The texts of the results\<close>

definition client_secret_required_instructions :: "auth_config \<Rightarrow> string" where
  "client_secret_required_instructions cfg = text_block [
        ''CLIENT SECRET REQUIRED:'',
        [],
        ''Your custom app registration requires a client secret for authentication.'',
        [],
        ''App Registration Details:'',
        bullet @ '' Client ID: '' @ client_id cfg,
        bullet @ '' Tenant ID: '' @ tenant_id cfg,
        [],
        ''To complete authentication, you can either:'',
        [],
        ''OPTION 1 - Provide via parameter (temporary):'',
        ''{'',
        ''  \"command\": \"users\",'',
        ''  \"method\": \"GET\", '',
        ''  \"client_secret\": \"your-app-secret-here\"'',
        ''}'',
        [],
        ''OPTION 2 - Set as environment variable (persistent):'',
        ''Add to your MCP configuration:'',
        ''  \"env\": {'',
        ''    \"CLIENT_SECRET\": \"your-app-secret-here\"'',
        ''  }'',
        [],
        ''Or use Docker args:'',
        ''  \"-e\", \"CLIENT_SECRET=your-app-secret-here\"'',
        [],
        ''If you don't have a client secret:'',
        ''- Go to Azure Portal > Azure Active Directory > App registrations'',
        ''- Find your app registration (Client ID: '' @ client_id cfg @ '')'',
        ''- Go to Certificates & secrets > New client secret'',
        ''- Copy the secret VALUE (not the ID)'',
        [],
        ''The client secret will be cached for subsequent requests in this session.'']"

definition device_code_instructions :: "device_code \<Rightarrow> string" where
  "device_code_instructions info = text_block [
        ''AUTHENTICATION REQUIRED:'',
        [],
        ''1. Open this URL in your browser: '' @ verification_uri info,
        ''2. Enter this code: '' @ user_code info,
        ''3. Complete the sign-in process with your Microsoft account'',
        ''4. This code expires in '' @ show_int (expires_in info) @ '' seconds'',
        ''5. After successful authentication, try your request again'',
        [],
        ''The authentication will be cached for future requests.'']"

definition invalid_client_secret_instructions :: "auth_config \<Rightarrow> string" where
  "invalid_client_secret_instructions cfg = text_block [
        ''CLIENT SECRET ERROR:'',
        [],
        ''The client secret you provided is invalid. This could be because:'',
        [],
        ''1. You copied the Secret ID instead of the Secret Value'',
        ''   - In Azure Portal, use the VALUE column, not the Secret ID'',
        ''   - The value should look like: 0pz8Q~~xfcUDmn0...'',
        ''   - NOT the ID like: 74edbec7-9b02-44d6-b091-3df29daa1a2c'',
        [],
        ''2. The client secret has expired'',
        ''   - Check the expiration date in Azure Portal'',
        ''   - Create a new client secret if needed'',
        [],
        ''3. The client secret was incorrectly copied'',
        ''   - Make sure you copied the complete value'',
        ''   - Avoid extra spaces or characters'',
        [],
        ''App Registration Details:'',
        bullet @ '' Client ID: '' @ client_id cfg,
        bullet @ '' Tenant ID: '' @ tenant_id cfg,
        [],
        ''Please verify your client secret and try again.'']"

text \<open>The dictionary returned when a device code is pending (the same in both handlers).\<close>

definition device_code_result :: "device_code \<Rightarrow> result" where
  "device_code_result info =
     [(''success'', JBool False),
      (''error'', JStr ''Device code authentication required''),
      (''auth_required'', JBool True),
      (''verification_uri'', JStr (verification_uri info)),
      (''user_code'', JStr (user_code info)),
      (''expires_in'', JInt (expires_in info)),
      (''instructions'', JStr (device_code_instructions info))]"

definition timeout_result :: result where
  "timeout_result =
     [(''success'', JBool False),
      (''error'', JStr ''Authentication timeout''),
      (''auth_required'', JBool True),
      (''instructions'', JStr ''Authentication timed out. Please try again.'')]"

definition invalid_client_secret_result :: "auth_config \<Rightarrow> string \<Rightarrow> result" where
  "invalid_client_secret_result cfg error_msg =
     [(''success'', JBool False),
      (''error'', JStr ''Invalid client secret provided''),
      (''auth_required'', JBool True),
      (''error_details'', JStr error_msg),
      (''instructions'', JStr (invalid_client_secret_instructions cfg))]"

definition authentication_failed_result :: "string \<Rightarrow> result" where
  "authentication_failed_result error_msg =
     [(''success'', JBool False),
      (''error'', JStr (''Authentication failed: '' @ error_msg)),
      (''auth_required'', JBool True),
      (''instructions'',
         JStr ''Please try again. If the issue persists, you may need to clear cached credentials.'')]"

text \<open>\<^verbatim>\<open>GraphService._get_client_secret\<close>.\<close>

definition priv_get_client_secret :: "graph_service \<Rightarrow> result" where
  "priv_get_client_secret self =
     (if \<not> truthy (client_secret self) then
        [(''success'', JBool False),
         (''error'', JStr ''Client secret required for custom app registration''),
         (''auth_required'', JBool True),
         (''auth_type'', JStr ''client_secret''),
         (''client_id'', JStr (client_id (auth_config self))),
         (''tenant_id'', JStr (tenant_id (auth_config self))),
         (''instructions'', JStr (client_secret_required_instructions (auth_config self)))]
      else [(''success'', JBool True)])"

subsection \<open>execute\_command, phase by phase\<close>

text \<open>
  A phase of \<^verbatim>\<open>execute_command\<close> ends in one of three ways: the method returns a result,
  an exception is raised, or control falls through to the next statement.
\<close>

datatype 'a flow = Return result | Raise py_exc | Continue 'a

text \<open>Lines 112-113: a truthy \<^verbatim>\<open>client_secret\<close> argument is stored on the object.\<close>

definition store_client_secret :: "string option \<Rightarrow> graph_service \<Rightarrow> graph_service" where
  "store_client_secret secret self =
     (if truthy secret then self\<lparr>client_secret := secret\<rparr> else self)"

text \<open>
  The assignment \<^verbatim>\<open>self.credential = C(...)\<close>: the constructor is called; when it raises,
  the assignment does not happen.
\<close>

definition new_credential ::
  "env \<Rightarrow> credential \<Rightarrow> graph_service \<Rightarrow> unit flow \<times> graph_service \<times> event list" where
  "new_credential env c self =
     (case construct env c of
        Some e \<Rightarrow> (Raise e, self, [Construct c])
      | None \<Rightarrow> (Continue (), self\<lparr>credential := Some c\<rparr>, [Construct c]))"

text \<open>Lines 116-137: the credential is created when there is none.\<close>

definition create_credential ::
  "env \<Rightarrow> graph_service \<Rightarrow> unit flow \<times> graph_service \<times> event list" where
  "create_credential env self =
     (if credential self = None then
        (if mode (auth_config self) = ''custom'' then
           (let secret_result = priv_get_client_secret self in
            if \<not> truthy (client_secret self)
               \<and> \<not> truthy_json (dict_get secret_result ''success'' (JBool True))
            then (Return secret_result, self, [])
            else new_credential env
                   (ClientSecretCredential (tenant_id (auth_config self))
                      (client_id (auth_config self)) (client_secret self)) self)
         else new_credential env
                (DeviceCodeCredential (client_id (auth_config self))
                   (tenant_id (auth_config self))) self)
      else (Continue (), self, []))"

text \<open>
  Lines 147-153: the awaited \<^verbatim>\<open>get_token\<close>. Only a \<^verbatim>\<open>DeviceCodeCredential\<close> has the prompt
  callback; when the provider calls it, \<^verbatim>\<open>_device_code_callback\<close> stores the device code.
  Without a credential object the attribute access raises \<^verbatim>\<open>AttributeError\<close>.
\<close>

definition request_token ::
  "env \<Rightarrow> graph_service \<Rightarrow> (py_exc + string) \<times> graph_service \<times> event list" where
  "request_token env self =
     (case credential self of
        None \<Rightarrow>
          (Inl (PyExc AttributeError
                  (CHR 0x27 # ''NoneType'' @ CHR 0x27 # '' object has no attribute ''
                   @ CHR 0x27 # ''get_token'' @ [CHR 0x27])),
           self, [])
      | Some c \<Rightarrow>
          (let acq = get_token env c (scopes (auth_config self));
               self' = (case c of
                          DeviceCodeCredential _ _ \<Rightarrow>
                            (case prompt acq of
                               Some (uri, code, expires) \<Rightarrow>
                                 device_code_callback self uri code expires
                             | None \<Rightarrow> self)
                        | ClientSecretCredential _ _ _ \<Rightarrow> self)
           in (outcome acq, self', [GetToken c (scopes (auth_config self))])))"

text \<open>
  Lines 146-255: token acquisition with its two handlers, \<^verbatim>\<open>except asyncio.TimeoutError\<close>
  first and \<^verbatim>\<open>except Exception\<close> second. Only the second one clears the credential.
\<close>

definition acquire_token ::
  "env \<Rightarrow> graph_service \<Rightarrow> string flow \<times> graph_service \<times> event list" where
  "acquire_token env self =
     (case request_token env self of
        (Inr token, self1, tr) \<Rightarrow> (Continue token, self1, tr)
      | (Inl auth_error, self1, tr) \<Rightarrow>
          if exc_class auth_error = AsyncioTimeoutError then
            (case device_code_info self1 of
               Some info \<Rightarrow> (Return (device_code_result info), self1, tr)
             | None \<Rightarrow> (Return timeout_result, self1, tr))
          else if is_Exception (exc_class auth_error) then
            (let self2 = self1\<lparr>credential := None\<rparr> in
             case device_code_info self2 of
               Some info \<Rightarrow> (Return (device_code_result info), self2, tr)
             | None \<Rightarrow>
                 (let error_msg = exc_str auth_error in
                  if sublist ''AADSTS7000215'' error_msg
                     \<or> sublist ''Invalid client secret'' error_msg
                  then (Return (invalid_client_secret_result (auth_config self2) error_msg),
                        self2, tr)
                  else (Return (authentication_failed_result error_msg), self2, tr)))
          else (Raise auth_error, self1, tr))"

text \<open>
  What \<^verbatim>\<open>str.upper\<close> does on a string of ASCII characters: the letters a to z become A to Z,
  and every other character is left as it is. The example environments below use it; their
  method strings are ASCII. The service itself calls \<open>str_upper\<close> of the environment.
\<close>

definition upper_char :: "char \<Rightarrow> char" where
  "upper_char c =
     (case map_of (zip ''abcdefghijklmnopqrstuvwxyz'' ''ABCDEFGHIJKLMNOPQRSTUVWXYZ'') c of
        Some u \<Rightarrow> u
      | None \<Rightarrow> c)"

definition ascii_upper :: "string \<Rightarrow> string" where
  "ascii_upper s = map upper_char s"

text \<open>\<^verbatim>\<open>command.lstrip('/')\<close>.\<close>

definition lstrip_slash :: "string \<Rightarrow> string" where
  "lstrip_slash s = dropWhile (\<lambda>c. c = CHR ''/'') s"

text \<open>Lines 258-284: the request is built and sent with the method that \<^verbatim>\<open>method.upper()\<close> names.\<close>

definition call_client ::
  "env \<Rightarrow> http_request \<Rightarrow> http_response flow \<times> event list" where
  "call_client env req =
     (case send env req of
        Inl e \<Rightarrow> (Raise e, [HttpCall req])
      | Inr response \<Rightarrow> (Continue response, [HttpCall req]))"

definition dispatch ::
  "env \<Rightarrow> string \<Rightarrow> string \<Rightarrow> json option \<Rightarrow> string \<Rightarrow> http_response flow \<times> event list" where
  "dispatch env command method data token =
     (let u = ''https://graph.microsoft.com/v1.0/'' @ lstrip_slash command;
          hs = [(''Authorization'', ''Bearer '' @ token),
                (''Content-Type'', ''application/json'')]
      in if str_upper env method = ''GET'' then
           call_client env \<lparr>http_method = ''GET'', url = u, headers = hs, json_kw = None\<rparr>
         else if str_upper env method = ''POST'' then
           call_client env \<lparr>http_method = ''POST'', url = u, headers = hs, json_kw = Some data\<rparr>
         else if str_upper env method = ''PUT'' then
           call_client env \<lparr>http_method = ''PUT'', url = u, headers = hs, json_kw = Some data\<rparr>
         else if str_upper env method = ''PATCH'' then
           call_client env \<lparr>http_method = ''PATCH'', url = u, headers = hs, json_kw = Some data\<rparr>
         else if str_upper env method = ''DELETE'' then
           call_client env \<lparr>http_method = ''DELETE'', url = u, headers = hs, json_kw = None\<rparr>
         else
           (Return [(''success'', JBool False),
                    (''error'', JStr (''Unsupported HTTP method: '' @ method))], []))"

text \<open>
  \<^verbatim>\<open>v.get(k, default)\<close> on a parsed body: a dictionary looks the key up; any other value has
  no attribute \<^verbatim>\<open>get\<close>, and Python raises \<^verbatim>\<open>AttributeError\<close>.
\<close>

fun type_name :: "json \<Rightarrow> string" where
  "type_name JNull = ''NoneType''"
| "type_name (JBool _) = ''bool''"
| "type_name (JInt _) = ''int''"
| "type_name (JFloat _) = ''float''"
| "type_name (JStr _) = ''str''"
| "type_name (JList _) = ''list''"
| "type_name (JDict _) = ''dict''"

definition method_get :: "json \<Rightarrow> string \<Rightarrow> json \<Rightarrow> py_exc + json" where
  "method_get v k dflt =
     (case v of
        JDict d \<Rightarrow> Inr (dict_get d k dflt)
      | _ \<Rightarrow> Inl (PyExc AttributeError
                   (CHR 0x27 # type_name v @ CHR 0x27 # '' object has no attribute ''
                    @ CHR 0x27 # ''get'' @ [CHR 0x27])))"

text \<open>
  What an f-string writes for a value: a string as it is, \<^verbatim>\<open>None\<close>, a boolean and an integer
  by their names and digits, a float by its \<^verbatim>\<open>repr\<close>, a list or dictionary by Python's \<^verbatim>\<open>repr\<close>.
\<close>

fun py_str :: "(json \<Rightarrow> string) \<Rightarrow> json \<Rightarrow> string" where
  "py_str rp (JStr s) = s"
| "py_str rp JNull = ''None''"
| "py_str rp (JBool b) = (if b then ''True'' else ''False'')"
| "py_str rp (JInt i) = show_int i"
| "py_str rp (JFloat r) = r"
| "py_str rp v = rp v"

text \<open>Lines 288-326: the response becomes a result.\<close>

definition normalize_response :: "env \<Rightarrow> http_response \<Rightarrow> py_exc + result" where
  "normalize_response env response =
     (if status_code response \<in> set [200, 201, 202, 204] then
        (if status_code response = 204 then
           Inr [(''success'', JBool True),
                (''data'', JDict [(''message'',
                   JStr ''Operation completed successfully (no content returned)'')]),
                (''status_code'', JInt (status_code response))]
         else
           (case json_result response of
              Inr data \<Rightarrow>
                Inr [(''success'', JBool True),
                     (''data'', data),
                     (''status_code'', JInt (status_code response))]
            | Inl e \<Rightarrow>
                if exc_class e = JSONDecodeError then
                  Inr [(''success'', JBool True),
                       (''data'', JDict [(''message'', JStr ''Operation completed successfully''),
                                         (''response_text'', JStr (resp_text response))]),
                       (''status_code'', JInt (status_code response))]
                else Inl e))
      else
        (case json_result response of
           Inr error_data \<Rightarrow>
             (case method_get error_data ''error'' (JDict []) of
                Inl e \<Rightarrow> Inl e
              | Inr err \<Rightarrow>
                  (case method_get err ''message'' (JStr (resp_text response)) of
                     Inl e \<Rightarrow> Inl e
                   | Inr m \<Rightarrow>
                       Inr [(''success'', JBool False),
                            (''error'', JStr (''HTTP '' @ show_int (status_code response)
                                              @ '': '' @ py_str (repr env) m)),
                            (''status_code'', JInt (status_code response)),
                            (''error_details'', error_data)]))
         | Inl e \<Rightarrow>
             if exc_class e = JSONDecodeError then
               Inr [(''success'', JBool False),
                    (''error'', JStr (''HTTP '' @ show_int (status_code response)
                                      @ '': '' @ resp_text response)),
                    (''status_code'', JInt (status_code response))]
             else Inl e))"

subsection \<open>execute\_command\<close>

text \<open>
  The body of the outer \<^verbatim>\<open>try\<close> (lines 109-326): what it returns or raises, the object
  afterwards, and the calls it made.
\<close>

definition execute_body ::
  "env \<Rightarrow> graph_service \<Rightarrow> string \<Rightarrow> string \<Rightarrow> json option \<Rightarrow> string option
   \<Rightarrow> (py_exc + result) \<times> graph_service \<times> event list" where
  "execute_body env self command method data secret =
     (case create_credential env (store_client_secret secret self) of
        (Return r, self2, tr1) \<Rightarrow> (Inr r, self2, tr1)
      | (Raise e, self2, tr1) \<Rightarrow> (Inl e, self2, tr1)
      | (Continue _, self2, tr1) \<Rightarrow>
          (case acquire_token env (self2\<lparr>device_code_info := None\<rparr>) of
             (Return r, self4, tr2) \<Rightarrow> (Inr r, self4, tr1 @ tr2)
           | (Raise e, self4, tr2) \<Rightarrow> (Inl e, self4, tr1 @ tr2)
           | (Continue token, self4, tr2) \<Rightarrow>
               (case dispatch env command method data token of
                  (Return r, tr3) \<Rightarrow> (Inr r, self4, tr1 @ tr2 @ tr3)
                | (Raise e, tr3) \<Rightarrow> (Inl e, self4, tr1 @ tr2 @ tr3)
                | (Continue response, tr3) \<Rightarrow>
                    (normalize_response env response, self4, tr1 @ tr2 @ tr3))))"

text \<open>
  The outer handler (lines 328-333): \<^verbatim>\<open>except Exception as e\<close> turns an exception of a class
  under \<^verbatim>\<open>Exception\<close> into a result; any other exception is not caught.
\<close>

definition handle_exception :: "py_exc + result \<Rightarrow> py_exc + result" where
  "handle_exception x =
     (case x of
        Inr r \<Rightarrow> Inr r
      | Inl e \<Rightarrow>
          if is_Exception (exc_class e) then
            Inr [(''success'', JBool False), (''error'', JStr (exc_str e))]
          else Inl e)"

text \<open>
  \<^verbatim>\<open>GraphService.execute_command\<close>: the body under the outer handler. In the first
  component \<open>Inr\<close> is the returned dictionary and \<open>Inl\<close> an exception that leaves the method.
\<close>

definition execute_command ::
  "env \<Rightarrow> graph_service \<Rightarrow> string \<Rightarrow> string \<Rightarrow> json option \<Rightarrow> string option
   \<Rightarrow> (py_exc + result) \<times> graph_service \<times> event list" where
  "execute_command env self command method data secret =
     (case execute_body env self command method data secret of
        (x, self', tr) \<Rightarrow> (handle_exception x, self', tr))"

text \<open>The calls of one kind among the calls made.\<close>

fun http_calls :: "event list \<Rightarrow> http_request list" where
  "http_calls [] = []"
| "http_calls (HttpCall req # es) = req # http_calls es"
| "http_calls (_ # es) = http_calls es"

fun constructions :: "event list \<Rightarrow> credential list" where
  "constructions [] = []"
| "constructions (Construct c # es) = c # constructions es"
| "constructions (_ # es) = constructions es"

text \<open>
  The objects a process can hold: the one \<^verbatim>\<open>__init__\<close> builds, and the one left by any call
  of \<^verbatim>\<open>execute_command\<close> on such an object.
\<close>

inductive reachable :: "settings \<Rightarrow> graph_service \<Rightarrow> bool" for settings :: settings where
  init: "reachable settings (GraphService_init settings)"
| call: "reachable settings self \<Longrightarrow>
         execute_command env self command method data secret = (r, self', tr) \<Longrightarrow>
         reachable settings self'"

text \<open>
  The device code that one acquisition leaves on the object: the arguments with which the
  provider called the prompt callback, when the credential is a \<^verbatim>\<open>DeviceCodeCredential\<close> and the
  provider called it.
\<close>

definition prompted :: "credential \<Rightarrow> acquisition \<Rightarrow> device_code option" where
  "prompted c acq =
     (case c of
        DeviceCodeCredential _ _ \<Rightarrow>
          (case prompt acq of
             Some (uri, code, expires) \<Rightarrow>
               Some \<lparr>verification_uri = uri, user_code = code, expires_in = expires\<rparr>
           | None \<Rightarrow> None)
      | ClientSecretCredential _ _ _ \<Rightarrow> None)"

subsection \<open>Example inputs\<close>

text \<open>
  Settings with nothing configured (the public client, device-code flow), and settings of an
  app registration without a configured secret (client-secret flow).
\<close>

definition public_settings :: settings where
  "public_settings =
     \<lparr>graph_tenant_id = None, graph_client_id = ''14d82eec-204b-4c2f-b7e8-296a70dab67e'',
      custom_client_id = None, custom_tenant_id = None, custom_client_secret = None,
      use_app_reg_clientid = None, tenantid = None, client_secret = None,
      graph_client_secret = None\<rparr>"

definition app_settings :: settings where
  "app_settings =
     \<lparr>graph_tenant_id = None, graph_client_id = ''14d82eec-204b-4c2f-b7e8-296a70dab67e'',
      custom_client_id = None, custom_tenant_id = None, custom_client_secret = None,
      use_app_reg_clientid = Some ''app-1'', tenantid = Some ''contoso'', client_secret = None,
      graph_client_secret = None\<rparr>"

text \<open>
  An outside world in which the constructors succeed, the provider never calls the prompt
  callback, and token acquisition and the HTTP call end as given. Its method strings are
  ASCII, on which \<open>ascii_upper\<close> is \<^verbatim>\<open>str.upper\<close>.
\<close>

definition plain_env :: "(py_exc + string) \<Rightarrow> (py_exc + http_response) \<Rightarrow> env" where
  "plain_env token_outcome response =
     \<lparr>construct = (\<lambda>c. None),
      get_token = (\<lambda>c sc. \<lparr>prompt = None, outcome = token_outcome\<rparr>),
      send = (\<lambda>req. response),
      repr = (\<lambda>v. []),
      str_upper = ascii_upper\<rparr>"

text \<open>
  An outside world in which the provider calls the prompt callback with the given arguments
  before token acquisition ends as given.
\<close>

definition prompting_env ::
  "string \<times> string \<times> int \<Rightarrow> (py_exc + string) \<Rightarrow> (py_exc + http_response) \<Rightarrow> env" where
  "prompting_env p token_outcome response =
     \<lparr>construct = (\<lambda>c. None),
      get_token = (\<lambda>c sc. \<lparr>prompt = Some p, outcome = token_outcome\<rparr>),
      send = (\<lambda>req. response),
      repr = (\<lambda>v. []),
      str_upper = ascii_upper\<rparr>"

subsection \<open>Words of the specification\<close>

text \<open>
  Follows the specification's words, for comparison with \<open>get_auth_config\<close>: the resolved
  identifier is the first non-empty one of its two aliases, if there is one.
\<close>

definition first_non_empty :: "string option \<Rightarrow> string option \<Rightarrow> string option" where
  "first_non_empty a b =
     (case a of
        Some x \<Rightarrow> if x \<noteq> [] then Some x else (case b of Some y \<Rightarrow> if y \<noteq> [] then Some y else None | None \<Rightarrow> None)
      | None \<Rightarrow> (case b of Some y \<Rightarrow> if y \<noteq> [] then Some y else None | None \<Rightarrow> None))"

section \<open>The authentication configuration\<close>

lemma first_non_empty_Some:
  "first_non_empty a b = Some x \<Longrightarrow> py_or a b = Some x \<and> x \<noteq> []"
  by (cases a; cases b) (simp_all add: first_non_empty_def py_or_def split: if_splits)

lemma truthy_iff_first_non_empty:
  "truthy (py_or a b) = (first_non_empty a b \<noteq> None)"
  by (cases a; cases b) (simp_all add: first_non_empty_def py_or_def)

lemma get_auth_config_custom:
  assumes "py_or (use_app_reg_clientid s) (custom_client_id s) = Some cid" "cid \<noteq> []"
      and "py_or (tenantid s) (custom_tenant_id s) = Some tid" "tid \<noteq> []"
  shows "get_auth_config s =
           \<lparr>mode = ''custom'', client_id = cid, tenant_id = tid,
            auth_mode = ''client_secret'',
            scopes = [''https://graph.microsoft.com/.default'']\<rparr>"
  using assms by (simp add: get_auth_config_def)

lemma get_auth_config_default:
  assumes "\<not> truthy (py_or (use_app_reg_clientid s) (custom_client_id s))
         \<or> \<not> truthy (py_or (tenantid s) (custom_tenant_id s))"
  shows "get_auth_config s =
           \<lparr>mode = ''default'', client_id = graph_client_id s,
            tenant_id = (case graph_tenant_id s of
                           Some d \<Rightarrow> if d \<noteq> [] then d else ''common''
                         | None \<Rightarrow> ''common''),
            auth_mode = ''device_code'',
            scopes = [''https://graph.microsoft.com/.default'']\<rparr>"
proof -
  obtain c where c: "c = py_or (use_app_reg_clientid s) (custom_client_id s)" by simp
  obtain t where t: "t = py_or (tenantid s) (custom_tenant_id s)" by simp
  from assms have "\<not> truthy c \<or> \<not> truthy t" by (simp add: c t)
  then show ?thesis
    unfolding get_auth_config_def Let_def c[symmetric] t[symmetric]
    by (cases c; cases t) auto
qed

text \<open>
  C1. For every settings object, \<open>get_auth_config\<close> resolves the client id as the first
  non-empty one of \<open>use_app_reg_clientid\<close> and \<open>custom_client_id\<close>, and the tenant id as the
  first non-empty one of \<open>tenantid\<close> and \<open>custom_tenant_id\<close>. When both exist the result is the
  custom mode with the client-secret strategy and these two identifiers; when one of them
  is missing the result is the default mode with \<open>graph_client_id\<close>, with \<open>graph_tenant_id\<close> if
  that is non-empty and \<open>common\<close> otherwise, and with the device-code strategy. In both cases
  the scopes are the single provider default scope. The two cases cover every settings
  object, and the result is a function of the settings alone.
\<close>

theorem get_auth_config_resolution:
  fixes s :: settings
  defines "c \<equiv> first_non_empty (use_app_reg_clientid s) (custom_client_id s)"
      and "t \<equiv> first_non_empty (tenantid s) (custom_tenant_id s)"
  shows "(\<forall>cid tid. c = Some cid \<and> t = Some tid \<longrightarrow>
            get_auth_config s =
              \<lparr>mode = ''custom'', client_id = cid, tenant_id = tid,
               auth_mode = ''client_secret'',
               scopes = [''https://graph.microsoft.com/.default'']\<rparr>)
       \<and> (c = None \<or> t = None \<longrightarrow>
            get_auth_config s =
              \<lparr>mode = ''default'', client_id = graph_client_id s,
               tenant_id = (case graph_tenant_id s of
                              Some d \<Rightarrow> if d \<noteq> [] then d else ''common''
                            | None \<Rightarrow> ''common''),
               auth_mode = ''device_code'',
               scopes = [''https://graph.microsoft.com/.default'']\<rparr>)"
proof (intro conjI allI impI)
  fix cid tid
  assume "c = Some cid \<and> t = Some tid"
  then show "get_auth_config s =
              \<lparr>mode = ''custom'', client_id = cid, tenant_id = tid,
               auth_mode = ''client_secret'',
               scopes = [''https://graph.microsoft.com/.default'']\<rparr>"
    unfolding c_def t_def
    by (intro get_auth_config_custom) (auto dest: first_non_empty_Some)
next
  assume "c = None \<or> t = None"
  then show "get_auth_config s =
              \<lparr>mode = ''default'', client_id = graph_client_id s,
               tenant_id = (case graph_tenant_id s of
                              Some d \<Rightarrow> if d \<noteq> [] then d else ''common''
                            | None \<Rightarrow> ''common''),
               auth_mode = ''device_code'',
               scopes = [''https://graph.microsoft.com/.default'']\<rparr>"
    unfolding c_def t_def
    by (intro get_auth_config_default) (simp add: truthy_iff_first_non_empty)
qed

theorem get_auth_config_resolution_witness:
  "first_non_empty (Some []) (Some ''app-1'') = Some ''app-1''
   \<and> first_non_empty (Some ''contoso'') None = Some ''contoso''
   \<and> get_auth_config
        \<lparr>graph_tenant_id = None, graph_client_id = ''14d82eec'',
         custom_client_id = Some ''app-1'', custom_tenant_id = None,
         custom_client_secret = None, use_app_reg_clientid = Some [],
         tenantid = Some ''contoso'', client_secret = None, graph_client_secret = None\<rparr>
       = \<lparr>mode = ''custom'', client_id = ''app-1'', tenant_id = ''contoso'',
          auth_mode = ''client_secret'',
          scopes = [''https://graph.microsoft.com/.default'']\<rparr>
   \<and> first_non_empty None (Some []) = None
   \<and> get_auth_config
        \<lparr>graph_tenant_id = Some [], graph_client_id = ''14d82eec'',
         custom_client_id = Some ''app-1'', custom_tenant_id = Some [],
         custom_client_secret = None, use_app_reg_clientid = None,
         tenantid = None, client_secret = None, graph_client_secret = None\<rparr>
       = \<lparr>mode = ''default'', client_id = ''14d82eec'', tenant_id = ''common'',
          auth_mode = ''device_code'',
          scopes = [''https://graph.microsoft.com/.default'']\<rparr>"
  using get_auth_config_resolution
          [of "\<lparr>graph_tenant_id = None, graph_client_id = ''14d82eec'',
         custom_client_id = Some ''app-1'', custom_tenant_id = None,
         custom_client_secret = None, use_app_reg_clientid = Some [],
         tenantid = Some ''contoso'', client_secret = None, graph_client_secret = None\<rparr>"]
        get_auth_config_resolution
          [of "\<lparr>graph_tenant_id = Some [], graph_client_id = ''14d82eec'',
         custom_client_id = Some ''app-1'', custom_tenant_id = Some [],
         custom_client_secret = None, use_app_reg_clientid = None,
         tenantid = None, client_secret = None, graph_client_secret = None\<rparr>"]
  by (simp add: first_non_empty_def)

text \<open>
  C9. For every settings object, \<open>is_read_only_mode\<close> is true exactly when the resolved mode
  is the default one, that is, exactly when the resolved client id and the resolved tenant
  id are not both non-empty.
\<close>

theorem is_read_only_mode_iff_default:
  "is_read_only_mode s = (mode (get_auth_config s) = ''default'')
   \<and> is_read_only_mode s =
       (\<not> (first_non_empty (use_app_reg_clientid s) (custom_client_id s) \<noteq> None
           \<and> first_non_empty (tenantid s) (custom_tenant_id s) \<noteq> None))"
proof (cases "truthy (py_or (use_app_reg_clientid s) (custom_client_id s))
            \<and> truthy (py_or (tenantid s) (custom_tenant_id s))")
  case True
  then obtain cid tid where
    "py_or (use_app_reg_clientid s) (custom_client_id s) = Some cid" "cid \<noteq> []"
    "py_or (tenantid s) (custom_tenant_id s) = Some tid" "tid \<noteq> []"
    by (metis truthy.elims(2))
  then have "mode (get_auth_config s) = ''custom''"
    by (simp add: get_auth_config_custom)
  with True show ?thesis
    by (simp add: is_read_only_mode_def truthy_iff_first_non_empty)
next
  case False
  then have "mode (get_auth_config s) = ''default''"
    by (subst get_auth_config_default) auto
  with False show ?thesis
    by (auto simp: is_read_only_mode_def truthy_iff_first_non_empty)
qed

theorem is_read_only_mode_iff_default_witness:
  "is_read_only_mode
     \<lparr>graph_tenant_id = Some [], graph_client_id = ''14d82eec'',
      custom_client_id = Some ''app-1'', custom_tenant_id = Some [],
      custom_client_secret = None, use_app_reg_clientid = None,
      tenantid = None, client_secret = None, graph_client_secret = None\<rparr>
   \<and> mode (get_auth_config
     \<lparr>graph_tenant_id = Some [], graph_client_id = ''14d82eec'',
      custom_client_id = Some ''app-1'', custom_tenant_id = Some [],
      custom_client_secret = None, use_app_reg_clientid = None,
      tenantid = None, client_secret = None, graph_client_secret = None\<rparr>) = ''default''"
proof -
  have "mode (get_auth_config
     \<lparr>graph_tenant_id = Some [], graph_client_id = ''14d82eec'',
      custom_client_id = Some ''app-1'', custom_tenant_id = Some [],
      custom_client_secret = None, use_app_reg_clientid = None,
      tenantid = None, client_secret = None, graph_client_secret = None\<rparr>) = ''default''"
    by (simp add: get_auth_config_def py_or_def)
  then show ?thesis
    using is_read_only_mode_iff_default
          [of "\<lparr>graph_tenant_id = Some [], graph_client_id = ''14d82eec'',
      custom_client_id = Some ''app-1'', custom_tenant_id = Some [],
      custom_client_secret = None, use_app_reg_clientid = None,
      tenantid = None, client_secret = None, graph_client_secret = None\<rparr>"]
    by blast
qed

section \<open>Phases of execute\_command\<close>

lemma http_calls_append [simp]: "http_calls (xs @ ys) = http_calls xs @ http_calls ys"
  by (induction xs rule: http_calls.induct) simp_all

lemma constructions_append [simp]:
  "constructions (xs @ ys) = constructions xs @ constructions ys"
  by (induction xs rule: constructions.induct) simp_all

lemma create_credential_frame:
  assumes "create_credential env s = (f, s', tr)"
  shows "auth_config s' = auth_config s" and "client_secret s' = client_secret s"
    and "device_code_info s' = device_code_info s"
    and "http_calls tr = []" and "GetToken c sc \<notin> set tr"
  using assms
  by (auto simp: create_credential_def new_credential_def Let_def
      split: if_splits option.splits)

lemma create_credential_Continue:
  assumes "create_credential env s = (Continue u, s', tr)"
  shows "credential s' \<noteq> None"
  using assms
  by (auto simp: create_credential_def new_credential_def Let_def
      split: if_splits option.splits)

lemma acquire_token_trace:
  assumes "acquire_token env s = (f, s', tr)"
  shows "tr = (case credential s of None \<Rightarrow> []
               | Some c \<Rightarrow> [GetToken c (scopes (auth_config s))])"
  using assms
  by (auto simp: acquire_token_def request_token_def Let_def
      split: if_splits option.splits sum.splits prod.splits)

lemma acquire_token_Continue:
  assumes "acquire_token env s = (f, s', tr)" and "credential s = Some c"
  shows "(f = Continue token) = (outcome (get_token env c (scopes (auth_config s))) = Inr token)"
  using assms
  by (auto simp: acquire_token_def request_token_def Let_def
      split: if_splits option.splits sum.splits prod.splits)

lemma dispatch_trace:
  assumes "dispatch env command method data token = (f, tr)"
  shows "GetToken c sc \<notin> set tr" and "constructions tr = []"
  using assms
  by (auto simp: dispatch_def call_client_def Let_def split: if_splits sum.splits)

text \<open>A call that asked for a token went through credential creation and reset the device code.\<close>

lemma execute_command_token:
  assumes ex: "execute_command env self command method data secret = (r, self', tr)"
      and tok: "GetToken c sc \<in> set tr"
  obtains u s2 tr1 f s4 where
      "create_credential env (store_client_secret secret self) = (Continue u, s2, tr1)"
      "credential s2 = Some c" "sc = scopes (auth_config self)"
      "acquire_token env (s2\<lparr>device_code_info := None\<rparr>) = (f, s4, [GetToken c sc])"
proof -
  obtain f1 s2 tr1 where cc:
    "create_credential env (store_client_secret secret self) = (f1, s2, tr1)"
    by (metis prod_cases3)
  obtain f s4 tr2 where at:
    "acquire_token env (s2\<lparr>device_code_info := None\<rparr>) = (f, s4, tr2)"
    by (metis prod_cases3)
  have no1: "GetToken c sc \<notin> set tr1" using create_credential_frame(5)[OF cc] .
  have ac: "auth_config s2 = auth_config self"
    using create_credential_frame(1)[OF cc] by (simp add: store_client_secret_def)
  have tr2: "tr2 = (case credential s2 of None \<Rightarrow> []
               | Some c \<Rightarrow> [GetToken c (scopes (auth_config self))])"
    using acquire_token_trace[OF at] ac by (simp split: option.splits)
  from ex tok cc no1 obtain u where f1: "f1 = Continue u"
    by (cases f1) (auto simp: execute_command_def execute_body_def)
  have "GetToken c sc \<in> set tr2"
  proof (cases f)
    case (Continue token)
    obtain f3 tr3 where di: "dispatch env command method data token = (f3, tr3)"
      by (metis surj_pair)
    with ex tok cc f1 at no1 Continue dispatch_trace(1)[OF di]
    show ?thesis
      by (cases f3) (auto simp: execute_command_def execute_body_def)
  qed (use ex tok cc f1 at no1 in \<open>auto simp: execute_command_def execute_body_def\<close>)
  with tr2 have "credential s2 = Some c" "sc = scopes (auth_config self)" "tr2 = [GetToken c sc]"
    by (auto split: option.splits)
  with cc f1 at that show thesis by blast
qed


lemma execute_command_eq:
  assumes "create_credential env (store_client_secret secret self) = (Continue u, s2, tr1)"
      and "acquire_token env (s2\<lparr>device_code_info := None\<rparr>) = (f, s4, tr2)"
  shows "execute_command env self command method data secret =
     (case f of
        Return r0 \<Rightarrow> (Inr r0, s4, tr1 @ tr2)
      | Raise e \<Rightarrow> (handle_exception (Inl e), s4, tr1 @ tr2)
      | Continue token \<Rightarrow>
          (case dispatch env command method data token of
             (f3, tr3) \<Rightarrow>
               (handle_exception
                  (case f3 of Return r0 \<Rightarrow> Inr r0 | Raise e \<Rightarrow> Inl e
                   | Continue response \<Rightarrow> normalize_response env response),
                s4, tr1 @ tr2 @ tr3)))"
  using assms
  by (simp add: execute_command_def execute_body_def handle_exception_def
      split: flow.splits prod.splits)

lemma request_token_Some:
  assumes "credential s = Some c"
  shows "request_token env s =
     (outcome (get_token env c (scopes (auth_config s))),
      (case prompted c (get_token env c (scopes (auth_config s))) of
         Some info \<Rightarrow> s\<lparr>device_code_info := Some info\<rparr>
       | None \<Rightarrow> s),
      [GetToken c (scopes (auth_config s))])"
  using assms
  by (simp add: request_token_def prompted_def device_code_callback_def Let_def
      split: credential.splits option.splits prod.splits)

lemma acquire_token_success:
  assumes "credential s = Some c"
      and "outcome (get_token env c (scopes (auth_config s))) = Inr token"
  shows "\<exists>s'. acquire_token env s = (Continue token, s', [GetToken c (scopes (auth_config s))])
              \<and> credential s' = Some c"
  using assms
  by (simp add: acquire_token_def request_token_Some split: option.splits)

text \<open>When the token was obtained, the result is that of the dispatch.\<close>

lemma execute_command_dispatch:
  assumes ex: "execute_command env self command method data secret = (r, self', tr)"
      and tok: "GetToken c sc \<in> set tr"
      and out: "outcome (get_token env c sc) = Inr token"
  obtains tr0 f3 tr3 where
      "dispatch env command method data token = (f3, tr3)"
      "tr = tr0 @ tr3" "http_calls tr0 = []"
      "r = handle_exception
             (case f3 of Return r0 \<Rightarrow> Inr r0 | Raise e \<Rightarrow> Inl e
              | Continue response \<Rightarrow> normalize_response env response)"
proof -
  from execute_command_token[OF ex tok] obtain u s2 tr1 f s4 where
    cc: "create_credential env (store_client_secret secret self) = (Continue u, s2, tr1)"
    and cr: "credential s2 = Some c" and sc: "sc = scopes (auth_config self)"
    and at: "acquire_token env (s2\<lparr>device_code_info := None\<rparr>) = (f, s4, [GetToken c sc])"
    by blast
  have ac: "auth_config s2 = auth_config self"
    using create_credential_frame(1)[OF cc] by (simp add: store_client_secret_def)
  have f: "f = Continue token"
    using acquire_token_success[of "s2\<lparr>device_code_info := None\<rparr>" c env token] cr out sc ac at
    by auto
  obtain f3 tr3 where di: "dispatch env command method data token = (f3, tr3)"
    by (metis surj_pair)
  have "execute_command env self command method data secret =
      (handle_exception
         (case f3 of Return r0 \<Rightarrow> Inr r0 | Raise e \<Rightarrow> Inl e
          | Continue response \<Rightarrow> normalize_response env response),
       s4, tr1 @ [GetToken c sc] @ tr3)"
    using execute_command_eq[OF cc at] f di by simp
  with ex have "r = handle_exception
         (case f3 of Return r0 \<Rightarrow> Inr r0 | Raise e \<Rightarrow> Inl e
          | Continue response \<Rightarrow> normalize_response env response)"
    and "tr = (tr1 @ [GetToken c sc]) @ tr3" by simp_all
  moreover have "http_calls (tr1 @ [GetToken c sc]) = []"
    using create_credential_frame(4)[OF cc] by simp
  ultimately show thesis using di that by blast
qed

lemma dispatch_unsupported:
  assumes "str_upper env method \<notin> {''GET'', ''POST'', ''PUT'', ''PATCH'', ''DELETE''}"
  shows "dispatch env command method data token =
     (Return [(''success'', JBool False),
              (''error'', JStr (''Unsupported HTTP method: '' @ method))], [])"
  using assms by (simp add: dispatch_def)

lemma dispatch_supported:
  assumes "str_upper env method \<in> {''GET'', ''POST'', ''PUT'', ''PATCH'', ''DELETE''}"
  shows "dispatch env command method data token =
     call_client env
       \<lparr>http_method = str_upper env method,
        url = ''https://graph.microsoft.com/v1.0/'' @ lstrip_slash command,
        headers = [(''Authorization'', ''Bearer '' @ token),
                   (''Content-Type'', ''application/json'')],
        json_kw = (if str_upper env method \<in> {''POST'', ''PUT'', ''PATCH''} then Some data else None)\<rparr>"
  using assms by (auto simp: dispatch_def)

lemma call_client_trace: "snd (call_client env req) = [HttpCall req]"
  by (simp add: call_client_def split: sum.splits)

text \<open>The definitions that are unfolded to run a call on a concrete input.\<close>

lemmas run_defs =
  execute_command_def execute_body_def handle_exception_def create_credential_def
  new_credential_def store_client_secret_def acquire_token_def request_token_def
  device_code_callback_def dispatch_def call_client_def normalize_response_def
  method_get_def dict_get_def ascii_upper_def upper_char_def lstrip_slash_def
  GraphService_init_def get_auth_config_def get_client_secret_def py_or_def
  is_Exception_def priv_get_client_secret_def
  public_settings_def app_settings_def plain_env_def prompting_env_def

section \<open>Dispatch by HTTP method\<close>

text \<open>
  C8. In a call of \<open>execute_command\<close> that obtained a token, with \<^verbatim>\<open>method.upper()\<close> being
  what Python's \<^verbatim>\<open>str.upper\<close> returns: when the upper-cased method is none of GET, POST, PUT,
  PATCH, DELETE, the result is the failure dictionary with the error
  \<open>Unsupported HTTP method: <method>\<close> (the method as given) and no HTTP request is made;
  when it is one of the five, exactly one request is made, with the method that the
  upper-cased string names (so two spellings with the same upper-cased form are dispatched
  alike), and the \<open>json\<close> body is passed for POST, PUT and PATCH only, never for GET or
  DELETE.
\<close>

theorem dispatch_by_method:
  assumes ex: "execute_command env self command method data secret = (r, self', tr)"
      and tok: "GetToken c sc \<in> set tr"
      and out: "outcome (get_token env c sc) = Inr token"
  shows "(str_upper env method \<notin> {''GET'', ''POST'', ''PUT'', ''PATCH'', ''DELETE''} \<longrightarrow>
            r = Inr [(''success'', JBool False),
                     (''error'', JStr (''Unsupported HTTP method: '' @ method))]
            \<and> http_calls tr = [])
       \<and> (str_upper env method \<in> {''GET'', ''POST'', ''PUT'', ''PATCH'', ''DELETE''} \<longrightarrow>
            http_calls tr =
              [\<lparr>http_method = str_upper env method,
                url = ''https://graph.microsoft.com/v1.0/'' @ lstrip_slash command,
                headers = [(''Authorization'', ''Bearer '' @ token),
                           (''Content-Type'', ''application/json'')],
                json_kw = (if str_upper env method \<in> {''POST'', ''PUT'', ''PATCH''}
                           then Some data else None)\<rparr>])"
proof -
  from execute_command_dispatch[OF ex tok out] obtain tr0 f3 tr3 where
    di: "dispatch env command method data token = (f3, tr3)"
    and tr: "tr = tr0 @ tr3" and h0: "http_calls tr0 = []"
    and r: "r = handle_exception
             (case f3 of Return r0 \<Rightarrow> Inr r0 | Raise e \<Rightarrow> Inl e
              | Continue response \<Rightarrow> normalize_response env response)"
    by blast
  show ?thesis
  proof (intro conjI impI)
    assume un: "str_upper env method \<notin> {''GET'', ''POST'', ''PUT'', ''PATCH'', ''DELETE''}"
    from dispatch_unsupported[OF un, of command data token] di
    have "f3 = Return [(''success'', JBool False),
                       (''error'', JStr (''Unsupported HTTP method: '' @ method))]"
      and "tr3 = []" by simp_all
    with r tr h0
    show "r = Inr [(''success'', JBool False),
                   (''error'', JStr (''Unsupported HTTP method: '' @ method))]"
      and "http_calls tr = []"
      by (simp_all add: handle_exception_def)
  next
    assume su: "str_upper env method \<in> {''GET'', ''POST'', ''PUT'', ''PATCH'', ''DELETE''}"
    from dispatch_supported[OF su, of command data token] di call_client_trace
    have "tr3 = [HttpCall
              \<lparr>http_method = str_upper env method,
                url = ''https://graph.microsoft.com/v1.0/'' @ lstrip_slash command,
                headers = [(''Authorization'', ''Bearer '' @ token),
                           (''Content-Type'', ''application/json'')],
                json_kw = (if str_upper env method \<in> {''POST'', ''PUT'', ''PATCH''}
                           then Some data else None)\<rparr>]"
      by (metis snd_conv)
    with tr h0
    show "http_calls tr =
              [\<lparr>http_method = str_upper env method,
                url = ''https://graph.microsoft.com/v1.0/'' @ lstrip_slash command,
                headers = [(''Authorization'', ''Bearer '' @ token),
                           (''Content-Type'', ''application/json'')],
                json_kw = (if str_upper env method \<in> {''POST'', ''PUT'', ''PATCH''}
                           then Some data else None)\<rparr>]"
      by simp
  qed
qed

theorem dispatch_by_method_witness:
  "fst (execute_command (plain_env (Inr ''tok'') (Inl (PyExc OtherException ''unreachable'')))
          (GraphService_init public_settings) ''me'' ''Trace'' None None)
     = Inr [(''success'', JBool False), (''error'', JStr ''Unsupported HTTP method: Trace'')]
   \<and> http_calls (snd (snd (execute_command
          (plain_env (Inr ''tok'') (Inl (PyExc OtherException ''unreachable'')))
          (GraphService_init public_settings) ''me'' ''Trace'' None None))) = []
   \<and> http_calls (snd (snd (execute_command
          (plain_env (Inr ''tok'') (Inl (PyExc OtherException ''unreachable'')))
          (GraphService_init public_settings) ''/users/1'' ''pAtCh''
          (Some (JDict [(''jobTitle'', JStr ''Dev'')])) None)))
     = [\<lparr>http_method = ''PATCH'', url = ''https://graph.microsoft.com/v1.0/users/1'',
         headers = [(''Authorization'', ''Bearer tok''),
                    (''Content-Type'', ''application/json'')],
         json_kw = Some (Some (JDict [(''jobTitle'', JStr ''Dev'')]))\<rparr>]"
proof -
  let ?E = "plain_env (Inr ''tok'') (Inl (PyExc OtherException ''unreachable''))"
  let ?S = "GraphService_init public_settings"
  let ?c = "DeviceCodeCredential ''14d82eec-204b-4c2f-b7e8-296a70dab67e'' ''common''"
  let ?sc = "[''https://graph.microsoft.com/.default'']"
  let ?X = "execute_command ?E ?S ''me'' ''Trace'' None None"
  let ?Y = "execute_command ?E ?S ''/users/1'' ''pAtCh''
              (Some (JDict [(''jobTitle'', JStr ''Dev'')])) None"
  have out: "outcome (get_token ?E ?c ?sc) = Inr ''tok''"
    by (simp add: plain_env_def)
  have x: "?X = (fst ?X, fst (snd ?X), snd (snd ?X))" by simp
  have xt: "GetToken ?c ?sc \<in> set (snd (snd ?X))" by (simp add: run_defs)
  have y: "?Y = (fst ?Y, fst (snd ?Y), snd (snd ?Y))" by simp
  have yt: "GetToken ?c ?sc \<in> set (snd (snd ?Y))" by (simp add: run_defs)
  have u: "str_upper ?E ''Trace'' = ''TRACE''" "str_upper ?E ''pAtCh'' = ''PATCH''"
    by (simp_all add: plain_env_def ascii_upper_def upper_char_def)
  show ?thesis
    using dispatch_by_method[OF x xt out] dispatch_by_method[OF y yt out]
    by (simp add: u lstrip_slash_def)
qed

section \<open>Outcomes of token acquisition\<close>

lemma sublist_text_block:
  assumes "l \<in> set ls" and "sublist x l"
  shows "sublist x (text_block ls)"
proof -
  from assms(1) obtain as bs where "ls = as @ l # bs" by (meson split_list)
  then have "text_block ls =
      (''\<newline>'' @ concat (map (\<lambda>l. l @ ''\<newline>'') as)) @ l
        @ (''\<newline>'' @ concat (map (\<lambda>l. l @ ''\<newline>'') bs))"
    by (simp add: text_block_def)
  then have "sublist l (text_block ls)"
    by (metis sublist_appendI)
  with assms(2) show ?thesis
    using sublist_order.order_trans by blast
qed

lemma acquire_token_timeout:
  assumes "credential s = Some c"
      and "outcome (get_token env c (scopes (auth_config s))) = Inl e"
      and "exc_class e = AsyncioTimeoutError"
  shows "acquire_token env s =
     (case prompted c (get_token env c (scopes (auth_config s))) of
        Some info \<Rightarrow>
          (Return (device_code_result info), s\<lparr>device_code_info := Some info\<rparr>,
           [GetToken c (scopes (auth_config s))])
      | None \<Rightarrow>
          (case device_code_info s of
             Some info \<Rightarrow> (Return (device_code_result info), s,
                           [GetToken c (scopes (auth_config s))])
           | None \<Rightarrow> (Return timeout_result, s, [GetToken c (scopes (auth_config s))])))"
  using assms
  by (simp add: acquire_token_def request_token_Some split: option.splits)

lemma acquire_token_error:
  assumes "credential s = Some c"
      and "outcome (get_token env c (scopes (auth_config s))) = Inl e"
      and "exc_class e \<noteq> AsyncioTimeoutError" and "is_Exception (exc_class e)"
  shows "\<exists>r s'. acquire_token env s = (Return r, s', [GetToken c (scopes (auth_config s))])
           \<and> credential s' = None
           \<and> device_code_info s' =
               (case prompted c (get_token env c (scopes (auth_config s))) of
                  Some info \<Rightarrow> Some info | None \<Rightarrow> device_code_info s)
           \<and> client_secret s' = client_secret s \<and> auth_config s' = auth_config s"
  using assms
  by (simp add: acquire_token_def request_token_Some Let_def split: option.splits)

text \<open>
  C6. In a call of \<open>execute_command\<close> whose token acquisition ran out of time after the
  provider had called the prompt callback of the device-code credential with a verification
  URI, a user code and an expiry, the result has \<open>success\<close> false and \<open>auth_required\<close> true,
  carries exactly these three values in the fields \<open>verification_uri\<close>, \<open>user_code\<close> and
  \<open>expires_in\<close>, and its instructions contain them in the numbered steps; the credential
  object is still stored afterwards.
\<close>

theorem device_code_timeout:
  assumes ex: "execute_command env self command method data secret = (r, self', tr)"
      and tok: "GetToken (DeviceCodeCredential cid tid) sc \<in> set tr"
      and pr: "prompt (get_token env (DeviceCodeCredential cid tid) sc) = Some (uri, code, expires)"
      and out: "outcome (get_token env (DeviceCodeCredential cid tid) sc) = Inl e"
      and cls: "exc_class e = AsyncioTimeoutError"
  shows "r = Inr [(''success'', JBool False),
                  (''error'', JStr ''Device code authentication required''),
                  (''auth_required'', JBool True),
                  (''verification_uri'', JStr uri),
                  (''user_code'', JStr code),
                  (''expires_in'', JInt expires),
                  (''instructions'', JStr (device_code_instructions
                     \<lparr>verification_uri = uri, user_code = code, expires_in = expires\<rparr>))]
       \<and> sublist (''1. Open this URL in your browser: '' @ uri)
            (device_code_instructions
               \<lparr>verification_uri = uri, user_code = code, expires_in = expires\<rparr>)
       \<and> sublist (''2. Enter this code: '' @ code)
            (device_code_instructions
               \<lparr>verification_uri = uri, user_code = code, expires_in = expires\<rparr>)
       \<and> sublist (''4. This code expires in '' @ show_int expires @ '' seconds'')
            (device_code_instructions
               \<lparr>verification_uri = uri, user_code = code, expires_in = expires\<rparr>)
       \<and> credential self' = Some (DeviceCodeCredential cid tid)"
proof -
  let ?c = "DeviceCodeCredential cid tid"
  let ?info = "\<lparr>verification_uri = uri, user_code = code, expires_in = expires\<rparr>"
  from execute_command_token[OF ex tok] obtain u s2 tr1 f s4 where
    cc: "create_credential env (store_client_secret secret self) = (Continue u, s2, tr1)"
    and cr: "credential s2 = Some ?c" and sc: "sc = scopes (auth_config self)"
    and at: "acquire_token env (s2\<lparr>device_code_info := None\<rparr>) = (f, s4, [GetToken ?c sc])"
    by blast
  have ac: "auth_config s2 = auth_config self"
    using create_credential_frame(1)[OF cc] by (simp add: store_client_secret_def)
  have p: "prompted ?c (get_token env ?c sc) = Some ?info"
    using pr by (simp add: prompted_def)
  have "acquire_token env (s2\<lparr>device_code_info := None\<rparr>) =
      (Return (device_code_result ?info),
       s2\<lparr>device_code_info := None\<rparr>\<lparr>device_code_info := Some ?info\<rparr>, [GetToken ?c sc])"
    using acquire_token_timeout[of "s2\<lparr>device_code_info := None\<rparr>" ?c env e] cr out cls sc ac p
    by simp
  with at have f: "f = Return (device_code_result ?info)"
    and s4: "s4 = s2\<lparr>device_code_info := None\<rparr>\<lparr>device_code_info := Some ?info\<rparr>" by simp_all
  from execute_command_eq[OF cc at] ex f
  have "r = Inr (device_code_result ?info)" and "self' = s4" by simp_all
  moreover have "sublist (''1. Open this URL in your browser: '' @ uri)
      (device_code_instructions ?info)"
    unfolding device_code_instructions_def
    by (rule sublist_text_block[where l = "''1. Open this URL in your browser: '' @ uri"])
       simp_all
  moreover have "sublist (''2. Enter this code: '' @ code) (device_code_instructions ?info)"
    unfolding device_code_instructions_def
    by (rule sublist_text_block[where l = "''2. Enter this code: '' @ code"]) simp_all
  moreover have "sublist (''4. This code expires in '' @ show_int expires @ '' seconds'')
      (device_code_instructions ?info)"
    unfolding device_code_instructions_def
    by (rule sublist_text_block
          [where l = "''4. This code expires in '' @ show_int expires @ '' seconds''"])
       simp_all
  ultimately show ?thesis using s4 cr by (simp add: device_code_result_def)
qed


theorem device_code_timeout_witness:
  "fst (execute_command
          (prompting_env (''https://x'', ''ABC-123'', 600)
             (Inl (PyExc AsyncioTimeoutError [])) (Inl (PyExc OtherException ''unreachable'')))
          (GraphService_init public_settings) ''me'' ''GET'' None None)
     = Inr [(''success'', JBool False),
            (''error'', JStr ''Device code authentication required''),
            (''auth_required'', JBool True),
            (''verification_uri'', JStr ''https://x''),
            (''user_code'', JStr ''ABC-123''),
            (''expires_in'', JInt 600),
            (''instructions'', JStr
(''\<newline>AUTHENTICATION REQUIRED:\<newline>\<newline>''
               @ ''1. Open this URL in your browser: https://x\<newline>''
               @ ''2. Enter this code: ABC-123\<newline>''
               @ ''3. Complete the sign-in process with your Microsoft account\<newline>''
               @ ''4. This code expires in 600 seconds\<newline>''
               @ ''5. After successful authentication, try your request again\<newline>\<newline>''
               @ ''The authentication will be cached for future requests.\<newline>''))]
   \<and> credential (fst (snd (execute_command
          (prompting_env (''https://x'', ''ABC-123'', 600)
             (Inl (PyExc AsyncioTimeoutError [])) (Inl (PyExc OtherException ''unreachable'')))
          (GraphService_init public_settings) ''me'' ''GET'' None None)))
     = Some (DeviceCodeCredential ''14d82eec-204b-4c2f-b7e8-296a70dab67e'' ''common'')"
proof -
  let ?E = "prompting_env (''https://x'', ''ABC-123'', 600)
             (Inl (PyExc AsyncioTimeoutError [])) (Inl (PyExc OtherException ''unreachable''))"
  let ?c = "DeviceCodeCredential ''14d82eec-204b-4c2f-b7e8-296a70dab67e'' ''common''"
  let ?sc = "[''https://graph.microsoft.com/.default'']"
  let ?X = "execute_command ?E (GraphService_init public_settings) ''me'' ''GET'' None None"
  have x: "?X = (fst ?X, fst (snd ?X), snd (snd ?X))" by simp
  have xt: "GetToken ?c ?sc \<in> set (snd (snd ?X))" by (simp add: run_defs)
  have pr: "prompt (get_token ?E ?c ?sc) = Some (''https://x'', ''ABC-123'', 600)"
    by (simp add: prompting_env_def)
  have out: "outcome (get_token ?E ?c ?sc) = Inl (PyExc AsyncioTimeoutError [])"
    by (simp add: prompting_env_def)
  have instr: "device_code_instructions
       \<lparr>verification_uri = ''https://x'', user_code = ''ABC-123'', expires_in = 600\<rparr> =
(''\<newline>AUTHENTICATION REQUIRED:\<newline>\<newline>''
               @ ''1. Open this URL in your browser: https://x\<newline>''
               @ ''2. Enter this code: ABC-123\<newline>''
               @ ''3. Complete the sign-in process with your Microsoft account\<newline>''
               @ ''4. This code expires in 600 seconds\<newline>''
               @ ''5. After successful authentication, try your request again\<newline>\<newline>''
               @ ''The authentication will be cached for future requests.\<newline>'')"
    by (simp add: device_code_instructions_def text_block_def show_int_def)
  show ?thesis
    using device_code_timeout[OF x xt pr out] by (simp add: instr)
qed

section \<open>What a call keeps, and the objects a process can hold\<close>

lemma acquire_token_frame:
  assumes "acquire_token env s = (f, s', tr)"
  shows "auth_config s' = auth_config s" and "client_secret s' = client_secret s"
  using assms
  by (auto simp: acquire_token_def request_token_def device_code_callback_def Let_def
      split: if_splits option.splits sum.splits prod.splits credential.splits)

lemma execute_command_frame:
  assumes "execute_command env s command method data secret = (r, s', tr)"
  shows "auth_config s' = auth_config s"
    and "client_secret s' = (if truthy secret then secret else client_secret s)"
proof -
  obtain f1 s2 tr1 where cc:
    "create_credential env (store_client_secret secret s) = (f1, s2, tr1)"
    by (metis prod_cases3)
  obtain f s4 tr2 where at:
    "acquire_token env (s2\<lparr>device_code_info := None\<rparr>) = (f, s4, tr2)"
    by (metis prod_cases3)
  have s2: "auth_config s2 = auth_config s"
    "client_secret s2 = (if truthy secret then secret else client_secret s)"
    using create_credential_frame(1,2)[OF cc] by (simp_all add: store_client_secret_def)
  have s4: "auth_config s4 = auth_config s2" "client_secret s4 = client_secret s2"
    using acquire_token_frame[OF at] by simp_all
  have "s' = s2 \<or> s' = s4"
    using assms cc at
    by (auto simp: execute_command_def execute_body_def split: flow.splits prod.splits)
  with s2 s4 show "auth_config s' = auth_config s"
    and "client_secret s' = (if truthy secret then secret else client_secret s)"
    by auto
qed

lemma create_credential_no_secret:
  assumes "credential s = None" and "mode (auth_config s) = ''custom''"
      and "\<not> truthy (client_secret s)"
  shows "create_credential env s = (Return (priv_get_client_secret s), s, [])"
  using assms
  by (simp add: create_credential_def priv_get_client_secret_def dict_get_def)

lemma execute_command_no_secret:
  assumes "credential s = None" and "mode (auth_config s) = ''custom''"
      and "\<not> truthy (client_secret s)" and "\<not> truthy secret"
  shows "execute_command env s command method data secret =
           (Inr (priv_get_client_secret s), s, [])"
  using create_credential_no_secret[OF assms(1-3), of env] assms(4)
  by (simp add: execute_command_def execute_body_def store_client_secret_def
      handle_exception_def)

text \<open>
  On every object a process can hold, the configuration is the one resolved at construction,
  and a credential of the custom mode was built from a known secret.
\<close>

lemma reachable_invariant:
  assumes "reachable settings s"
  shows "auth_config s = get_auth_config settings
       \<and> (mode (auth_config s) = ''custom'' \<and> \<not> truthy (client_secret s)
            \<longrightarrow> credential s = None)"
  using assms
proof (induction rule: reachable.induct)
  case init
  show ?case by (simp add: GraphService_init_def)
next
  case (call self env command meth dat secret r self' tr)
  note fr = execute_command_frame[OF call.hyps(2)]
  show ?case
  proof (intro conjI impI)
    show "auth_config self' = get_auth_config settings"
      using fr(1) call.IH by simp
  next
    assume a: "mode (auth_config self') = ''custom'' \<and> \<not> truthy (client_secret self')"
    then have m: "mode (auth_config self) = ''custom''" using fr(1) by simp
    from a fr(2) have ns: "\<not> truthy secret" "\<not> truthy (client_secret self)"
      by (auto split: if_splits)
    with m call.IH have cn: "credential self = None" by simp
    from execute_command_no_secret[OF cn m ns(2) ns(1), of env command meth dat]
      call.hyps(2)
    have "self' = self" by simp
    with cn show "credential self' = None" by simp
  qed
qed

lemma sublist_after_bullet: "sublist x (bullet @ CHR '' '' # x)"
proof -
  have "bullet @ CHR '' '' # x = (bullet @ '' '') @ x" by simp
  then show ?thesis by (metis sublist_append_leftI)
qed

section \<open>The missing client secret\<close>

text \<open>
  C3. On every object a process can hold, in the custom mode (client-secret strategy), when
  no client secret is known (none stored on the object, which covers the one from the
  configuration and any earlier override, and none passed to this call, an empty string
  counting as none), \<open>execute_command\<close> returns at once the dictionary with \<open>success\<close> false,
  \<open>auth_required\<close> true, the error that a client secret is required, the configured client
  and tenant identifiers, and instructions that name both ways of supplying the secret and
  both identifiers. The object is unchanged, no credential is constructed, no token is
  requested and no HTTP request is made.
\<close>

theorem client_secret_required:
  assumes re: "reachable settings self"
      and cu: "mode (auth_config self) = ''custom''"
      and ns: "\<not> truthy (client_secret self)"
      and no: "\<not> truthy secret"
  shows "execute_command env self command method data secret =
           (Inr [(''success'', JBool False),
                 (''error'', JStr ''Client secret required for custom app registration''),
                 (''auth_required'', JBool True),
                 (''auth_type'', JStr ''client_secret''),
                 (''client_id'', JStr (client_id (get_auth_config settings))),
                 (''tenant_id'', JStr (tenant_id (get_auth_config settings))),
                 (''instructions'',
                    JStr (client_secret_required_instructions (get_auth_config settings)))],
            self, [])
       \<and> credential self = None
       \<and> sublist ''OPTION 1 - Provide via parameter (temporary):''
            (client_secret_required_instructions (get_auth_config settings))
       \<and> sublist ''OPTION 2 - Set as environment variable (persistent):''
            (client_secret_required_instructions (get_auth_config settings))
       \<and> sublist (''Client ID: '' @ client_id (get_auth_config settings))
            (client_secret_required_instructions (get_auth_config settings))
       \<and> sublist (''Tenant ID: '' @ tenant_id (get_auth_config settings))
            (client_secret_required_instructions (get_auth_config settings))"
proof -
  let ?cfg = "get_auth_config settings"
  from reachable_invariant[OF re] cu ns
  have ac: "auth_config self = ?cfg" and cn: "credential self = None" by simp_all
  have "execute_command env self command method data secret =
           (Inr (priv_get_client_secret self), self, [])"
    by (rule execute_command_no_secret[OF cn cu ns no])
  moreover have "sublist ''OPTION 1 - Provide via parameter (temporary):''
      (client_secret_required_instructions ?cfg)"
    unfolding client_secret_required_instructions_def
    by (rule sublist_text_block[where l = "''OPTION 1 - Provide via parameter (temporary):''"])
       simp_all
  moreover have "sublist ''OPTION 2 - Set as environment variable (persistent):''
      (client_secret_required_instructions ?cfg)"
    unfolding client_secret_required_instructions_def
    by (rule sublist_text_block
          [where l = "''OPTION 2 - Set as environment variable (persistent):''"])
       simp_all
  moreover have "sublist (''Client ID: '' @ client_id ?cfg)
      (client_secret_required_instructions ?cfg)"
    unfolding client_secret_required_instructions_def
    by (rule sublist_text_block[where l = "bullet @ '' Client ID: '' @ client_id ?cfg"])
       (simp_all add: sublist_after_bullet)
  moreover have "sublist (''Tenant ID: '' @ tenant_id ?cfg)
      (client_secret_required_instructions ?cfg)"
    unfolding client_secret_required_instructions_def
    by (rule sublist_text_block[where l = "bullet @ '' Tenant ID: '' @ tenant_id ?cfg"])
       (simp_all add: sublist_after_bullet)
  ultimately show ?thesis
    using ns ac cn by (simp add: priv_get_client_secret_def)
qed


theorem client_secret_required_witness:
  "execute_command (plain_env (Inr ''tok'') (Inl (PyExc OtherException ''unreachable'')))
     (GraphService_init app_settings) ''users'' ''GET'' None (Some [])
   = (Inr [(''success'', JBool False),
           (''error'', JStr ''Client secret required for custom app registration''),
           (''auth_required'', JBool True),
           (''auth_type'', JStr ''client_secret''),
           (''client_id'', JStr ''app-1''),
           (''tenant_id'', JStr ''contoso''),
           (''instructions'',
              JStr (client_secret_required_instructions (get_auth_config app_settings)))],
      GraphService_init app_settings, [])
   \<and> sublist ''Client ID: app-1''
         (client_secret_required_instructions (get_auth_config app_settings))
   \<and> sublist ''Tenant ID: contoso''
         (client_secret_required_instructions (get_auth_config app_settings))"
proof -
  have cu: "mode (auth_config (GraphService_init app_settings)) = ''custom''"
    by (simp add: GraphService_init_def get_auth_config_def app_settings_def py_or_def)
  have ns: "\<not> truthy (client_secret (GraphService_init app_settings))"
    by (simp add: GraphService_init_def get_client_secret_def app_settings_def py_or_def)
  have no: "\<not> truthy (Some [])" by simp
  have ids: "client_id (get_auth_config app_settings) = ''app-1''"
    "tenant_id (get_auth_config app_settings) = ''contoso''"
    by (simp_all add: get_auth_config_def app_settings_def py_or_def)
  show ?thesis
    using client_secret_required[OF reachable.init cu ns no,
        of "plain_env (Inr ''tok'') (Inl (PyExc OtherException ''unreachable''))"
           "''users''" "''GET''" None]
    by (simp add: ids)
qed

section \<open>The credential after a failed acquisition\<close>

lemma acquire_token_constructions:
  assumes "acquire_token env s = (f, s', tr)"
  shows "constructions tr = []"
  using acquire_token_trace[OF assms] by (simp split: option.splits)

lemma execute_command_constructions:
  assumes ex: "execute_command env s command method data secret = (r, s', tr)"
      and cc: "create_credential env (store_client_secret secret s) = (f1, s2, tr1)"
  shows "constructions tr = constructions tr1"
proof -
  obtain f s4 tr2 where at:
    "acquire_token env (s2\<lparr>device_code_info := None\<rparr>) = (f, s4, tr2)"
    by (metis prod_cases3)
  note c2 = acquire_token_constructions[OF at]
  show ?thesis
  proof (cases f1)
    case (Continue u)
    show ?thesis
    proof (cases f)
      case (Continue token)
      obtain f3 tr3 where di: "dispatch env command method data token = (f3, tr3)"
        by (metis surj_pair)
      from ex cc at \<open>f1 = Continue u\<close> Continue di c2 dispatch_trace(2)[OF di]
      show ?thesis
        by (cases f3) (auto simp: execute_command_def execute_body_def)
    qed (use ex cc at \<open>f1 = Continue u\<close> c2 in
          \<open>auto simp: execute_command_def execute_body_def\<close>)
  qed (use ex cc in \<open>auto simp: execute_command_def execute_body_def\<close>)
qed

lemma create_credential_constructions:
  assumes "create_credential env s = (f, s', tr)"
  shows "constructions tr =
     (if credential s = None then
        if mode (auth_config s) = ''custom'' then
          if truthy (client_secret s) then
            [ClientSecretCredential (tenant_id (auth_config s)) (client_id (auth_config s))
               (client_secret s)]
          else []
        else [DeviceCodeCredential (client_id (auth_config s)) (tenant_id (auth_config s))]
      else [])"
  using assms
  by (auto simp: create_credential_def new_credential_def priv_get_client_secret_def
      dict_get_def split: if_splits option.splits)

text \<open>A call on an object without a credential constructs one from the secret then known.\<close>

lemma execute_command_reconstructs:
  assumes "credential s = None" and "mode (auth_config s) = ''custom''"
      and "truthy (client_secret (store_client_secret secret s))"
  shows "constructions (snd (snd (execute_command env s command method data secret))) =
     [ClientSecretCredential (tenant_id (auth_config s)) (client_id (auth_config s))
        (client_secret (store_client_secret secret s))]"
proof -
  obtain r s' tr where ex: "execute_command env s command method data secret = (r, s', tr)"
    by (metis prod_cases3)
  obtain f1 s2 tr1 where cc:
    "create_credential env (store_client_secret secret s) = (f1, s2, tr1)"
    by (metis prod_cases3)
  have "credential (store_client_secret secret s) = None"
    "auth_config (store_client_secret secret s) = auth_config s"
    using assms(1) by (simp_all add: store_client_secret_def)
  with create_credential_constructions[OF cc] assms(2,3)
  have "constructions tr1 =
     [ClientSecretCredential (tenant_id (auth_config s)) (client_id (auth_config s))
        (client_secret (store_client_secret secret s))]"
    by simp
  with execute_command_constructions[OF ex cc] ex show ?thesis by simp
qed

lemma execute_command_credential_after:
  assumes ex: "execute_command env self command method data secret = (r, self', tr)"
      and tok: "GetToken c sc \<in> set tr"
      and out: "outcome (get_token env c sc) = Inl e"
  shows "exc_class e \<noteq> AsyncioTimeoutError \<and> is_Exception (exc_class e)
           \<longrightarrow> credential self' = None"
    and "exc_class e = AsyncioTimeoutError \<longrightarrow> credential self' = Some c"
proof -
  from execute_command_token[OF ex tok] obtain u s2 tr1 f s4 where
    cc: "create_credential env (store_client_secret secret self) = (Continue u, s2, tr1)"
    and cr: "credential s2 = Some c" and sc: "sc = scopes (auth_config self)"
    and at: "acquire_token env (s2\<lparr>device_code_info := None\<rparr>) = (f, s4, [GetToken c sc])"
    by blast
  let ?s3 = "s2\<lparr>device_code_info := None\<rparr>"
  have ac: "auth_config s2 = auth_config self"
    using create_credential_frame(1)[OF cc] by (simp add: store_client_secret_def)
  have c3: "credential ?s3 = Some c" using cr by simp
  have o3: "outcome (get_token env c (scopes (auth_config ?s3))) = Inl e"
    using out sc ac by simp
  show "exc_class e \<noteq> AsyncioTimeoutError \<and> is_Exception (exc_class e)
           \<longrightarrow> credential self' = None"
  proof
    assume a: "exc_class e \<noteq> AsyncioTimeoutError \<and> is_Exception (exc_class e)"
    from acquire_token_error[OF c3 o3] a at obtain r0 where
      "f = Return r0" and "credential s4 = None" by auto
    with execute_command_eq[OF cc at] ex show "credential self' = None" by simp
  qed
  show "exc_class e = AsyncioTimeoutError \<longrightarrow> credential self' = Some c"
  proof
    assume a: "exc_class e = AsyncioTimeoutError"
    from acquire_token_timeout[OF c3 o3 a] at obtain r0 where
      "f = Return r0" and "credential s4 = Some c"
      using cr by (auto split: option.splits)
    with execute_command_eq[OF cc at] ex show "credential self' = Some c" by simp
  qed
qed

text \<open>
  C4, as the code has it. The object holds at most one credential (the field is a single
  optional value) and a call constructs at most one. In the custom mode, after a call whose
  token acquisition ended in an exception of a class under \<open>Exception\<close> other than
  \<open>asyncio.TimeoutError\<close>, the credential has been discarded, and the next call that is given
  a secret constructs a new credential from that secret. After a call whose token
  acquisition ran out of time, the credential is kept.
\<close>

theorem acquisition_error_discards_credential:
  assumes ex: "execute_command env self command method data secret = (r, self', tr)"
      and cu: "mode (auth_config self) = ''custom''"
      and tok: "GetToken c sc \<in> set tr"
      and out: "outcome (get_token env c sc) = Inl e"
  shows "length (constructions tr) \<le> 1
       \<and> (exc_class e \<noteq> AsyncioTimeoutError \<and> is_Exception (exc_class e) \<longrightarrow>
            credential self' = None
            \<and> (\<forall>env' command' method' data' secret'. truthy secret' \<longrightarrow>
                 constructions (snd (snd
                   (execute_command env' self' command' method' data' secret'))) =
                 [ClientSecretCredential (tenant_id (auth_config self))
                    (client_id (auth_config self)) secret']))
       \<and> (exc_class e = AsyncioTimeoutError \<longrightarrow> credential self' = Some c)"
proof (intro conjI impI allI)
  obtain f1 s2 tr1 where cc:
    "create_credential env (store_client_secret secret self) = (f1, s2, tr1)"
    by (metis prod_cases3)
  show "length (constructions tr) \<le> 1"
    using execute_command_constructions[OF ex cc] create_credential_constructions[OF cc]
    by simp
next
  assume a: "exc_class e \<noteq> AsyncioTimeoutError \<and> is_Exception (exc_class e)"
  with execute_command_credential_after(1)[OF ex tok out]
  show cn: "credential self' = None" by simp
  fix env' command' method' data' and secret' :: "string option"
  assume t: "truthy secret'"
  have ac: "auth_config self' = auth_config self"
    using execute_command_frame(1)[OF ex] .
  from t have "client_secret (store_client_secret secret' self') = secret'"
    by (simp add: store_client_secret_def)
  with execute_command_reconstructs[OF cn, of secret' env' command' method' data'] cu ac t
  show "constructions (snd (snd
          (execute_command env' self' command' method' data' secret'))) =
        [ClientSecretCredential (tenant_id (auth_config self))
           (client_id (auth_config self)) secret']"
    by simp
next
  assume "exc_class e = AsyncioTimeoutError"
  with execute_command_credential_after(2)[OF ex tok out]
  show "credential self' = Some c" by simp
qed


theorem acquisition_error_discards_credential_witness:
  "credential (fst (snd (execute_command
       (plain_env (Inl (PyExc OtherException ''AADSTS7000215: Invalid client secret provided.''))
          (Inl (PyExc OtherException ''unreachable'')))
       (GraphService_init app_settings) ''users'' ''GET'' None (Some ''wrong'')))) = None
   \<and> constructions (snd (snd (execute_command
       (plain_env (Inr ''tok'') (Inl (PyExc OtherException ''connection refused'')))
       (fst (snd (execute_command
          (plain_env (Inl (PyExc OtherException ''AADSTS7000215: Invalid client secret provided.''))
             (Inl (PyExc OtherException ''unreachable'')))
          (GraphService_init app_settings) ''users'' ''GET'' None (Some ''wrong''))))
       ''users'' ''GET'' None (Some ''right''))))
     = [ClientSecretCredential ''contoso'' ''app-1'' (Some ''right'')]"
proof -
  let ?E = "plain_env (Inl (PyExc OtherException ''AADSTS7000215: Invalid client secret provided.''))
          (Inl (PyExc OtherException ''unreachable''))"
  let ?S = "GraphService_init app_settings"
  let ?c = "ClientSecretCredential ''contoso'' ''app-1'' (Some ''wrong'')"
  let ?sc = "[''https://graph.microsoft.com/.default'']"
  let ?X = "execute_command ?E ?S ''users'' ''GET'' None (Some ''wrong'')"
  have x: "?X = (fst ?X, fst (snd ?X), snd (snd ?X))" by simp
  have cfg: "auth_config ?S =
      \<lparr>mode = ''custom'', client_id = ''app-1'', tenant_id = ''contoso'',
       auth_mode = ''client_secret'', scopes = ?sc\<rparr>"
    by (simp add: GraphService_init_def get_auth_config_def app_settings_def py_or_def)
  have cu: "mode (auth_config ?S) = ''custom''" by (simp add: cfg)
  have xt: "GetToken ?c ?sc \<in> set (snd (snd ?X))" by (simp add: run_defs)
  have out: "outcome (get_token ?E ?c ?sc) =
      Inl (PyExc OtherException ''AADSTS7000215: Invalid client secret provided.'')"
    by (simp add: plain_env_def)
  have t: "truthy (Some ''right'')" by simp
  from acquisition_error_discards_credential[OF x cu xt out]
  have "credential (fst (snd ?X)) = None"
    and "\<forall>env' command' method' data' secret'. truthy secret' \<longrightarrow>
           constructions (snd (snd
             (execute_command env' (fst (snd ?X)) command' method' data' secret'))) =
           [ClientSecretCredential (tenant_id (auth_config ?S))
              (client_id (auth_config ?S)) secret']"
    by (simp_all add: is_Exception_def)
  with t show ?thesis by (simp add: cfg)
qed

text \<open>
  C4 as stated also promises the discard after a timeout. In the custom mode, with the
  secret \<open>wrong\<close>, a call whose token acquisition runs out of time returns the timeout
  result and leaves the credential built from \<open>wrong\<close> on the object; a second call that
  passes the secret \<open>right\<close> constructs nothing and asks the old credential for the token.
\<close>

theorem timeout_keeps_client_secret_credential:
  "mode (auth_config (GraphService_init app_settings)) = ''custom''
   \<and> execute_command
       (plain_env (Inl (PyExc AsyncioTimeoutError [])) (Inl (PyExc OtherException ''unreachable'')))
       (GraphService_init app_settings) ''users'' ''GET'' None (Some ''wrong'')
     = (Inr timeout_result,
        (GraphService_init app_settings)
          \<lparr>credential := Some (ClientSecretCredential ''contoso'' ''app-1'' (Some ''wrong'')),
           client_secret := Some ''wrong''\<rparr>,
        [Construct (ClientSecretCredential ''contoso'' ''app-1'' (Some ''wrong'')),
         GetToken (ClientSecretCredential ''contoso'' ''app-1'' (Some ''wrong''))
           [''https://graph.microsoft.com/.default'']])
   \<and> snd (snd (execute_command
       (plain_env (Inl (PyExc AsyncioTimeoutError [])) (Inl (PyExc OtherException ''unreachable'')))
       ((GraphService_init app_settings)
          \<lparr>credential := Some (ClientSecretCredential ''contoso'' ''app-1'' (Some ''wrong'')),
           client_secret := Some ''wrong''\<rparr>)
       ''users'' ''GET'' None (Some ''right'')))
     = [GetToken (ClientSecretCredential ''contoso'' ''app-1'' (Some ''wrong''))
           [''https://graph.microsoft.com/.default'']]"
  by (simp add: run_defs)

section \<open>A secret passed while a credential exists\<close>

lemma request_token_client_secret:
  "request_token env (s\<lparr>client_secret := x\<rparr>) =
     (case request_token env s of (out, s', tr) \<Rightarrow> (out, s'\<lparr>client_secret := x\<rparr>, tr))"
proof (cases "credential s")
  case None
  then show ?thesis by (simp add: request_token_def)
next
  case (Some c)
  then show ?thesis by (simp add: request_token_Some split: option.splits)
qed

lemma acquire_token_client_secret:
  "acquire_token env (s\<lparr>client_secret := x\<rparr>) =
     (case acquire_token env s of (f, s', tr) \<Rightarrow> (f, s'\<lparr>client_secret := x\<rparr>, tr))"
proof -
  obtain out s1 tr where rt: "request_token env s = (out, s1, tr)"
    by (metis prod_cases3)
  then have rt': "request_token env (s\<lparr>client_secret := x\<rparr>)
                    = (out, s1\<lparr>client_secret := x\<rparr>, tr)"
    by (simp add: request_token_client_secret)
  show ?thesis
  proof (cases out)
    case (Inr token)
    with rt rt' show ?thesis by (simp add: acquire_token_def)
  next
    case (Inl e)
    with rt rt' show ?thesis
      by (cases "device_code_info s1") (simp_all add: acquire_token_def Let_def)
  qed
qed

lemma create_credential_existing:
  assumes "credential s = Some c"
  shows "create_credential env s = (Continue (), s, [])"
  using assms by (simp add: create_credential_def)

lemma execute_command_existing:
  assumes "credential s = Some c"
  shows "execute_command env s command method data secret =
     (case acquire_token env (store_client_secret secret s\<lparr>device_code_info := None\<rparr>) of
        (f, s4, tr2) \<Rightarrow>
          (case f of
             Return r0 \<Rightarrow> (Inr r0, s4, tr2)
           | Raise e \<Rightarrow> (handle_exception (Inl e), s4, tr2)
           | Continue token \<Rightarrow>
               (case dispatch env command method data token of
                  (f3, tr3) \<Rightarrow>
                    (handle_exception
                       (case f3 of Return r0 \<Rightarrow> Inr r0 | Raise e \<Rightarrow> Inl e
                        | Continue response \<Rightarrow> normalize_response env response),
                     s4, tr2 @ tr3))))"
proof -
  have cr: "credential (store_client_secret secret s) = Some c"
    using assms by (simp add: store_client_secret_def)
  obtain f s4 tr2 where at:
    "acquire_token env (store_client_secret secret s\<lparr>device_code_info := None\<rparr>) = (f, s4, tr2)"
    by (metis prod_cases3)
  from execute_command_eq[OF create_credential_existing[OF cr] at] at
  show ?thesis by (simp split: flow.splits prod.splits)
qed

text \<open>
  C10. When a credential exists and \<open>execute_command\<close> is called with a non-empty
  \<open>client_secret\<close>, the call behaves as the same call without the secret, except that the
  object stores the new secret afterwards: the result and the calls made are the same, and
  the object afterwards differs in \<open>client_secret\<close> only. No credential is constructed, the
  token is requested from the existing credential, and afterwards the credential is the
  old one or has been discarded. In the custom mode, once the credential has been
  discarded, the next call constructs a credential from the stored new secret.
\<close>

theorem override_keeps_credential:
  assumes cr: "credential self = Some c" and ts: "truthy secret"
      and ex: "execute_command env self command method data secret = (r, self', tr)"
      and ex0: "execute_command env self command method data None = (r0, self0, tr0)"
  shows "r = r0 \<and> tr = tr0 \<and> self' = self0\<lparr>client_secret := secret\<rparr>
       \<and> constructions tr = []
       \<and> (\<exists>rest. tr = GetToken c (scopes (auth_config self)) # rest)
       \<and> (credential self' = Some c \<or> credential self' = None)
       \<and> (mode (auth_config self) = ''custom'' \<longrightarrow>
            (\<forall>env' command' method' data'.
               constructions (snd (snd (execute_command env'
                  (self'\<lparr>credential := None\<rparr>) command' method' data' None))) =
               [ClientSecretCredential (tenant_id (auth_config self))
                  (client_id (auth_config self)) secret]))"
proof -
  let ?s = "self\<lparr>device_code_info := None\<rparr>"
  obtain f s4 tr2 where at: "acquire_token env ?s = (f, s4, tr2)"
    by (metis prod_cases3)
  have st: "store_client_secret secret self\<lparr>device_code_info := None\<rparr>
              = ?s\<lparr>client_secret := secret\<rparr>"
    "store_client_secret None self = self"
    using ts by (simp_all add: store_client_secret_def)
  have at': "acquire_token env (?s\<lparr>client_secret := secret\<rparr>)
               = (f, s4\<lparr>client_secret := secret\<rparr>, tr2)"
    using at by (simp add: acquire_token_client_secret)
  have e1: "(r, self', tr) =
     (case f of
        Return r0 \<Rightarrow> (Inr r0, s4\<lparr>client_secret := secret\<rparr>, tr2)
      | Raise e \<Rightarrow> (handle_exception (Inl e), s4\<lparr>client_secret := secret\<rparr>, tr2)
      | Continue token \<Rightarrow>
          (case dispatch env command method data token of
             (f3, tr3) \<Rightarrow>
               (handle_exception
                  (case f3 of Return r0 \<Rightarrow> Inr r0 | Raise e \<Rightarrow> Inl e
                   | Continue response \<Rightarrow> normalize_response env response),
                s4\<lparr>client_secret := secret\<rparr>, tr2 @ tr3)))"
    using execute_command_existing[OF cr, of env command "method" "data" secret] ex st at'
    by simp
  have e0: "(r0, self0, tr0) =
     (case f of
        Return r0 \<Rightarrow> (Inr r0, s4, tr2)
      | Raise e \<Rightarrow> (handle_exception (Inl e), s4, tr2)
      | Continue token \<Rightarrow>
          (case dispatch env command method data token of
             (f3, tr3) \<Rightarrow>
               (handle_exception
                  (case f3 of Return r0 \<Rightarrow> Inr r0 | Raise e \<Rightarrow> Inl e
                   | Continue response \<Rightarrow> normalize_response env response),
                s4, tr2 @ tr3)))"
    using execute_command_existing[OF cr, of env command "method" "data" None] ex0 st at
    by simp
  have same: "r = r0 \<and> tr = tr0 \<and> self' = self0\<lparr>client_secret := secret\<rparr>"
  proof (cases f)
    case (Continue token)
    obtain f3 tr3 where "dispatch env command method data token = (f3, tr3)"
      by (metis surj_pair)
    with e1 e0 Continue show ?thesis by simp
  qed (use e1 e0 in simp_all)
  have tr2: "tr2 = [GetToken c (scopes (auth_config self))]"
    using acquire_token_trace[OF at] cr by simp
  have hd: "\<exists>rest. tr = GetToken c (scopes (auth_config self)) # rest"
  proof (cases f)
    case (Continue token)
    obtain f3 tr3 where "dispatch env command method data token = (f3, tr3)"
      by (metis surj_pair)
    with e1 tr2 Continue show ?thesis by simp
  qed (use e1 tr2 in simp_all)
  have nc: "constructions tr = []"
    using execute_command_constructions[OF ex create_credential_existing]
      cr by (simp add: store_client_secret_def)
  have s4c: "credential s4 = Some c \<or> credential s4 = None"
  proof (cases "outcome (get_token env c (scopes (auth_config ?s)))")
    case (Inr token)
    from acquire_token_success[of ?s c env token] cr Inr at show ?thesis by auto
  next
    case (Inl e)
    show ?thesis
    proof (cases "exc_class e = AsyncioTimeoutError")
      case True
      from acquire_token_timeout[of ?s c env e] cr Inl True at show ?thesis
        by (auto split: option.splits)
    next
      case False
      show ?thesis
      proof (cases "is_Exception (exc_class e)")
        case True
        from acquire_token_error[of ?s c env e] cr Inl False True at show ?thesis by auto
      next
        case ne: False
        from at cr Inl False ne show ?thesis
          by (auto simp: acquire_token_def request_token_Some split: option.splits)
      qed
    qed
  qed
  have cs: "credential self' = Some c \<or> credential self' = None"
  proof (cases f)
    case (Continue token)
    obtain f3 tr3 where "dispatch env command method data token = (f3, tr3)"
      by (metis surj_pair)
    with e1 s4c Continue show ?thesis by auto
  qed (use e1 s4c in auto)
  have fr: "auth_config self' = auth_config self" "client_secret self' = secret"
    using execute_command_frame[OF ex] ts by simp_all
  have later: "constructions (snd (snd (execute_command env'
                  (self'\<lparr>credential := None\<rparr>) command' method' data' None))) =
               [ClientSecretCredential (tenant_id (auth_config self))
                  (client_id (auth_config self)) secret]"
    if "mode (auth_config self) = ''custom''" for env' command' method' data'
    using execute_command_reconstructs
            [of "self'\<lparr>credential := None\<rparr>" None env' command' method' data'] that fr ts
    by (simp add: store_client_secret_def)
  show ?thesis
  proof (intro conjI impI allI)
    show "r = r0" "tr = tr0" "self' = self0\<lparr>client_secret := secret\<rparr>"
      using same by simp_all
    show "constructions tr = []" by (rule nc)
    show "\<exists>rest. tr = GetToken c (scopes (auth_config self)) # rest" by (rule hd)
    show "credential self' = Some c \<or> credential self' = None" by (rule cs)
  next
    fix env' command' method' data'
    assume "mode (auth_config self) = ''custom''"
    then show "constructions (snd (snd (execute_command env'
                  (self'\<lparr>credential := None\<rparr>) command' method' data' None))) =
               [ClientSecretCredential (tenant_id (auth_config self))
                  (client_id (auth_config self)) secret]"
      by (rule later)
  qed
qed


theorem override_keeps_credential_witness:
  "fst (execute_command (plain_env (Inr ''tok'') (Inl (PyExc OtherException ''connection refused'')))
          ((GraphService_init app_settings)
             \<lparr>credential := Some (ClientSecretCredential ''contoso'' ''app-1'' (Some ''old'')),
              client_secret := Some ''old''\<rparr>)
          ''users'' ''GET'' None (Some ''new''))
     = Inr [(''success'', JBool False), (''error'', JStr ''connection refused'')]
   \<and> fst (snd (execute_command
          (plain_env (Inr ''tok'') (Inl (PyExc OtherException ''connection refused'')))
          ((GraphService_init app_settings)
             \<lparr>credential := Some (ClientSecretCredential ''contoso'' ''app-1'' (Some ''old'')),
              client_secret := Some ''old''\<rparr>)
          ''users'' ''GET'' None (Some ''new'')))
     = (GraphService_init app_settings)
             \<lparr>credential := Some (ClientSecretCredential ''contoso'' ''app-1'' (Some ''old'')),
              client_secret := Some ''new''\<rparr>
   \<and> constructions (snd (snd (execute_command
          (plain_env (Inr ''tok'') (Inl (PyExc OtherException ''connection refused'')))
          ((GraphService_init app_settings)
             \<lparr>credential := Some (ClientSecretCredential ''contoso'' ''app-1'' (Some ''old'')),
              client_secret := Some ''old''\<rparr>)
          ''users'' ''GET'' None (Some ''new'')))) = []
   \<and> constructions (snd (snd (execute_command
          (plain_env (Inr ''tok'') (Inl (PyExc OtherException ''connection refused'')))
          ((GraphService_init app_settings)
             \<lparr>client_secret := Some ''new'', credential := None\<rparr>)
          ''users'' ''GET'' None None)))
     = [ClientSecretCredential ''contoso'' ''app-1'' (Some ''new'')]"
proof -
  let ?E = "plain_env (Inr ''tok'') (Inl (PyExc OtherException ''connection refused''))"
  let ?c = "ClientSecretCredential ''contoso'' ''app-1'' (Some ''old'')"
  let ?S = "(GraphService_init app_settings)\<lparr>credential := Some ?c, client_secret := Some ''old''\<rparr>"
  let ?X = "execute_command ?E ?S ''users'' ''GET'' None (Some ''new'')"
  let ?Y = "execute_command ?E ?S ''users'' ''GET'' None None"
  have cr: "credential ?S = Some ?c" by simp
  have ts: "truthy (Some ''new'')" by simp
  have x: "?X = (fst ?X, fst (snd ?X), snd (snd ?X))" by simp
  have x0: "?Y = (fst ?Y, fst (snd ?Y), snd (snd ?Y))" by simp
  have cfg: "auth_config ?S =
      \<lparr>mode = ''custom'', client_id = ''app-1'', tenant_id = ''contoso'',
       auth_mode = ''client_secret'', scopes = [''https://graph.microsoft.com/.default'']\<rparr>"
    by (simp add: GraphService_init_def get_auth_config_def app_settings_def py_or_def)
  have v0: "fst ?Y = Inr [(''success'', JBool False), (''error'', JStr ''connection refused'')]"
    "fst (snd ?Y) = ?S"
    by (simp_all add: run_defs)
  note th = override_keeps_credential
      [of ?S ?c "Some ''new''" ?E "''users''" "''GET''" None
          "fst ?X" "fst (snd ?X)" "snd (snd ?X)" "fst ?Y" "fst (snd ?Y)" "snd (snd ?Y)",
       OF cr ts x x0]
  from th have a1: "fst ?X = fst ?Y" by (elim conjE)
  from th have a2: "fst (snd ?X) = (fst (snd ?Y))\<lparr>client_secret := Some ''new''\<rparr>"
    by (elim conjE)
  from th have a3: "constructions (snd (snd ?X)) = []" by (elim conjE)
  from th have imp: "mode (auth_config ?S) = ''custom'' \<longrightarrow>
      (\<forall>env' command' method' data'.
         constructions (snd (snd (execute_command env'
            ((fst (snd ?X))\<lparr>credential := None\<rparr>) command' method' data' None))) =
         [ClientSecretCredential (tenant_id (auth_config ?S))
            (client_id (auth_config ?S)) (Some ''new'')])"
    by (elim conjE)
  have cu: "mode (auth_config ?S) = ''custom''" by (simp add: cfg)
  from imp[rule_format, OF cu, of ?E "''users''" "''GET''" None]
  have b: "constructions (snd (snd (execute_command ?E
        ((fst (snd ?X))\<lparr>credential := None\<rparr>) ''users'' ''GET'' None None))) =
      [ClientSecretCredential ''contoso'' ''app-1'' (Some ''new'')]"
    by (simp add: cfg)
  note a = a1 a2 a3
  from a b v0 show ?thesis by simp
qed

section \<open>When the pending device code is reset\<close>

lemma acquire_token_device_code_info:
  assumes cr: "credential s = Some c" and dn: "device_code_info s = None"
      and at: "acquire_token env s = (f, s', tr)"
  shows "device_code_info s' = prompted c (get_token env c (scopes (auth_config s)))"
proof -
  let ?p = "prompted c (get_token env c (scopes (auth_config s)))"
  let ?s1 = "case ?p of Some info \<Rightarrow> s\<lparr>device_code_info := Some info\<rparr> | None \<Rightarrow> s"
  have d1: "device_code_info ?s1 = ?p" using dn by (simp split: option.splits)
  show ?thesis
  proof (cases "outcome (get_token env c (scopes (auth_config s)))")
    case (Inr token)
    with at cr have "s' = ?s1" by (simp add: acquire_token_def request_token_Some)
    with d1 show ?thesis by simp
  next
    case (Inl e)
    with at cr have "s' = ?s1 \<or> s' = ?s1\<lparr>credential := None\<rparr>"
      by (cases "device_code_info ?s1")
         (auto simp: acquire_token_def request_token_Some Let_def split: if_splits)
    with d1 show ?thesis by auto
  qed
qed

text \<open>
  After a call that requested a token the object holds the device code that the provider
  handed over during this call, or none; a call that did not request one leaves the stored
  device code as it was.
\<close>

lemma execute_command_device_code_info:
  assumes ex: "execute_command env self command method data secret = (r, self', tr)"
  shows "(\<forall>c sc. GetToken c sc \<in> set tr \<longrightarrow>
            device_code_info self' = prompted c (get_token env c sc))
       \<and> ((\<forall>c sc. GetToken c sc \<notin> set tr) \<longrightarrow>
            device_code_info self' = device_code_info self)"
proof (intro conjI allI impI)
  fix c sc
  assume tok: "GetToken c sc \<in> set tr"
  from execute_command_token[OF ex tok] obtain u s2 tr1 f s4 where
    cc: "create_credential env (store_client_secret secret self) = (Continue u, s2, tr1)"
    and cr: "credential s2 = Some c" and sc: "sc = scopes (auth_config self)"
    and at: "acquire_token env (s2\<lparr>device_code_info := None\<rparr>) = (f, s4, [GetToken c sc])"
    by blast
  have ac: "auth_config s2 = auth_config self"
    using create_credential_frame(1)[OF cc] by (simp add: store_client_secret_def)
  have "self' = s4"
  proof (cases f)
    case (Continue token)
    obtain f3 tr3 where "dispatch env command method data token = (f3, tr3)"
      by (metis surj_pair)
    with execute_command_eq[OF cc at] ex Continue show ?thesis by simp
  qed (use execute_command_eq[OF cc at] ex in simp_all)
  moreover have "device_code_info s4 = prompted c (get_token env c sc)"
    using acquire_token_device_code_info[OF _ _ at] cr sc ac by simp
  ultimately show "device_code_info self' = prompted c (get_token env c sc)" by simp
next
  assume none: "\<forall>c sc. GetToken c sc \<notin> set tr"
  obtain f1 s2 tr1 where cc:
    "create_credential env (store_client_secret secret self) = (f1, s2, tr1)"
    by (metis prod_cases3)
  have d2: "device_code_info s2 = device_code_info self"
    using create_credential_frame(3)[OF cc] by (simp add: store_client_secret_def)
  show "device_code_info self' = device_code_info self"
  proof (cases f1)
    case (Return r0)
    with ex cc d2 show ?thesis by (simp add: execute_command_def execute_body_def)
  next
    case (Raise e)
    with ex cc d2 show ?thesis by (simp add: execute_command_def execute_body_def)
  next
    case (Continue u)
    obtain f s4 tr2 where at:
      "acquire_token env (s2\<lparr>device_code_info := None\<rparr>) = (f, s4, tr2)"
      by (metis prod_cases3)
    from create_credential_Continue cc Continue obtain c where cr: "credential s2 = Some c"
      by blast
    with acquire_token_trace[OF at]
    have t2: "tr2 = [GetToken c (scopes (auth_config s2))]" by simp
    have "GetToken c (scopes (auth_config s2)) \<in> set tr"
    proof (cases f)
      case (Continue token)
      obtain f3 tr3 where "dispatch env command method data token = (f3, tr3)"
        by (metis surj_pair)
      with execute_command_eq[OF cc[unfolded \<open>f1 = Continue u\<close>] at] ex Continue t2
      show ?thesis by auto
    qed (use execute_command_eq[OF cc[unfolded \<open>f1 = Continue u\<close>] at] ex t2 in auto)
    with none show ?thesis by blast
  qed
qed

lemma create_credential_device_code_info:
  "create_credential env (s\<lparr>device_code_info := old\<rparr>) =
     (case create_credential env s of
        (f, s', tr) \<Rightarrow> (f, s'\<lparr>device_code_info := old\<rparr>, tr))"
proof (cases "credential s")
  case (Some c)
  then show ?thesis by (simp add: create_credential_def)
next
  case None
  show ?thesis
  proof (cases "mode (auth_config s) = ''custom''")
    case True
    with None show ?thesis
      by (cases "truthy (client_secret s)")
         (simp_all add: create_credential_def new_credential_def priv_get_client_secret_def
            dict_get_def split: option.splits)
  next
    case False
    with None show ?thesis
      by (simp add: create_credential_def new_credential_def split: option.splits)
  qed
qed

text \<open>Once the token is requested, nothing of the call depends on the device code stored before.\<close>

lemma execute_command_forgets_device_code:
  assumes ex: "execute_command env self command method data secret = (r, self', tr)"
      and tok: "GetToken c sc \<in> set tr"
  shows "execute_command env (self\<lparr>device_code_info := old\<rparr>) command method data secret
           = (r, self', tr)"
proof -
  from execute_command_token[OF ex tok] obtain u s2 tr1 f s4 where
    cc: "create_credential env (store_client_secret secret self) = (Continue u, s2, tr1)"
    and cr: "credential s2 = Some c" and sc: "sc = scopes (auth_config self)"
    and at: "acquire_token env (s2\<lparr>device_code_info := None\<rparr>) = (f, s4, [GetToken c sc])"
    by blast
  have st: "store_client_secret secret (self\<lparr>device_code_info := old\<rparr>)
              = (store_client_secret secret self)\<lparr>device_code_info := old\<rparr>"
    by (simp add: store_client_secret_def)
  have "create_credential env ((store_client_secret secret self)\<lparr>device_code_info := old\<rparr>)
          = (Continue u, s2\<lparr>device_code_info := old\<rparr>, tr1)"
    by (simp only: create_credential_device_code_info
          [where s = "store_client_secret secret self"] cc prod.case)
  then have cc': "create_credential env
                    (store_client_secret secret (self\<lparr>device_code_info := old\<rparr>))
                    = (Continue u, s2\<lparr>device_code_info := old\<rparr>, tr1)"
    by (simp only: st)
  have upd: "s2\<lparr>device_code_info := old\<rparr>\<lparr>device_code_info := None\<rparr>
               = s2\<lparr>device_code_info := None\<rparr>"
    by simp
  have at': "acquire_token env (s2\<lparr>device_code_info := old\<rparr>\<lparr>device_code_info := None\<rparr>)
               = (f, s4, [GetToken c sc])"
    by (simp only: upd at)
  have e1: "execute_command env self command method data secret =
     (case f of
        Return r0 \<Rightarrow> (Inr r0, s4, tr1 @ [GetToken c sc])
      | Raise e \<Rightarrow> (handle_exception (Inl e), s4, tr1 @ [GetToken c sc])
      | Continue token \<Rightarrow>
          (case dispatch env command method data token of
             (f3, tr3) \<Rightarrow>
               (handle_exception
                  (case f3 of Return r0 \<Rightarrow> Inr r0 | Raise e \<Rightarrow> Inl e
                   | Continue response \<Rightarrow> normalize_response env response),
                s4, tr1 @ [GetToken c sc] @ tr3)))"
    by (rule execute_command_eq[OF cc at])
  have e2: "execute_command env (self\<lparr>device_code_info := old\<rparr>) command method data secret =
     (case f of
        Return r0 \<Rightarrow> (Inr r0, s4, tr1 @ [GetToken c sc])
      | Raise e \<Rightarrow> (handle_exception (Inl e), s4, tr1 @ [GetToken c sc])
      | Continue token \<Rightarrow>
          (case dispatch env command method data token of
             (f3, tr3) \<Rightarrow>
               (handle_exception
                  (case f3 of Return r0 \<Rightarrow> Inr r0 | Raise e \<Rightarrow> Inl e
                   | Continue response \<Rightarrow> normalize_response env response),
                s4, tr1 @ [GetToken c sc] @ tr3)))"
    by (rule execute_command_eq[OF cc' at'])
  show ?thesis by (rule trans[OF e2 trans[OF e1[symmetric] ex]])
qed

lemma acquire_token_credential:
  assumes cr: "credential s = Some c" and at: "acquire_token env s = (f, s', tr)"
  shows "credential s' = Some c \<or> credential s' = None"
proof (cases "outcome (get_token env c (scopes (auth_config s)))")
  case (Inr token)
  from acquire_token_success[OF cr Inr] at show ?thesis by auto
next
  case (Inl e)
  show ?thesis
  proof (cases "exc_class e = AsyncioTimeoutError")
    case True
    from acquire_token_timeout[OF cr Inl True] cr at show ?thesis
      by (auto split: option.splits)
  next
    case False
    show ?thesis
    proof (cases "is_Exception (exc_class e)")
      case True
      from acquire_token_error[OF cr Inl False True] at show ?thesis by auto
    next
      case ne: False
      from at cr Inl False ne show ?thesis
        by (auto simp: acquire_token_def request_token_Some split: option.splits)
    qed
  qed
qed

lemma store_client_secret_frame:
  "credential (store_client_secret secret s) = credential s"
  "auth_config (store_client_secret secret s) = auth_config s"
  "device_code_info (store_client_secret secret s) = device_code_info s"
  by (simp_all add: store_client_secret_def)

lemma create_credential_custom:
  assumes "create_credential env s = (f, s', tr)" and "mode (auth_config s) = ''custom''"
  shows "credential s' = credential s
       \<or> (\<exists>t i x. credential s' = Some (ClientSecretCredential t i x))"
  using assms
  by (auto simp: create_credential_def new_credential_def Let_def
      split: if_splits option.splits)

text \<open>
  In the custom mode the object never holds a device code: its credentials are
  client-secret credentials, which have no prompt callback.
\<close>

lemma reachable_custom_no_device_code:
  assumes "reachable settings s" and "mode (auth_config s) = ''custom''"
  shows "device_code_info s = None
       \<and> (credential s = None \<or> (\<exists>t i x. credential s = Some (ClientSecretCredential t i x)))"
  using assms
proof (induction rule: reachable.induct)
  case init
  show ?case by (simp add: GraphService_init_def)
next
  case (call self env command meth dat secret r self' tr)
  have cu: "mode (auth_config self) = ''custom''"
    using execute_command_frame(1)[OF call.hyps(2)] call.prems by simp
  with call.IH have dn: "device_code_info self = None"
    and cs: "credential self = None
             \<or> (\<exists>t i x. credential self = Some (ClientSecretCredential t i x))"
    by simp_all
  obtain f1 s2 tr1 where cc:
    "create_credential env (store_client_secret secret self) = (f1, s2, tr1)"
    by (metis prod_cases3)
  have d2: "device_code_info s2 = None"
    using create_credential_frame(3)[OF cc] dn by (simp add: store_client_secret_frame)
  have c2: "credential s2 = None
            \<or> (\<exists>t i x. credential s2 = Some (ClientSecretCredential t i x))"
    using create_credential_custom[OF cc] cu cs by (auto simp: store_client_secret_frame)
  show ?case
  proof (cases f1)
    case (Return r0)
    with call.hyps(2) cc have "self' = s2"
      by (simp add: execute_command_def execute_body_def)
    with d2 c2 show ?thesis by simp
  next
    case (Raise e)
    with call.hyps(2) cc have "self' = s2"
      by (simp add: execute_command_def execute_body_def)
    with d2 c2 show ?thesis by simp
  next
    case (Continue u)
    obtain f s4 tr2 where at:
      "acquire_token env (s2\<lparr>device_code_info := None\<rparr>) = (f, s4, tr2)"
      by (metis prod_cases3)
    from create_credential_Continue cc Continue c2 obtain t i x where
      cr: "credential s2 = Some (ClientSecretCredential t i x)" by blast
    have "fst (snd (execute_command env self command meth dat secret)) = s4"
      unfolding execute_command_eq[OF cc[unfolded Continue] at]
      by (simp split: flow.splits prod.splits)
    with call.hyps(2) have "self' = s4" by simp
    moreover have "device_code_info s4 = None"
      using acquire_token_device_code_info[OF _ _ at] cr by (simp add: prompted_def)
    moreover have "credential s4 = Some (ClientSecretCredential t i x) \<or> credential s4 = None"
      using acquire_token_credential[OF _ at] cr by simp
    ultimately show ?thesis by auto
  qed
qed

text \<open>
  The result of a call whose token acquisition failed names the device code of this call, or
  none.
\<close>

lemma acquire_token_prompted_result:
  assumes "credential s = Some c"
      and "outcome (get_token env c (scopes (auth_config s))) = Inl e"
      and "is_Exception (exc_class e)"
      and "prompted c (get_token env c (scopes (auth_config s))) = Some info"
  shows "fst (acquire_token env s) = Return (device_code_result info)"
  using assms
  by (simp add: acquire_token_def request_token_Some Let_def)

lemma acquire_token_timeout_result:
  assumes "credential s = Some c" and "device_code_info s = None"
      and "outcome (get_token env c (scopes (auth_config s))) = Inl e"
      and "exc_class e = AsyncioTimeoutError"
      and "prompted c (get_token env c (scopes (auth_config s))) = None"
  shows "fst (acquire_token env s) = Return timeout_result"
  using assms
  by (simp add: acquire_token_def request_token_Some Let_def)

lemma execute_command_failed_acquisition:
  assumes ex: "execute_command env self command method data secret = (r, self', tr)"
      and tok: "GetToken c sc \<in> set tr"
      and out: "outcome (get_token env c sc) = Inl e"
  shows "(\<forall>info. is_Exception (exc_class e)
                 \<and> prompted c (get_token env c sc) = Some info \<longrightarrow>
             r = Inr (device_code_result info))
       \<and> (exc_class e = AsyncioTimeoutError
             \<and> prompted c (get_token env c sc) = None \<longrightarrow>
             r = Inr timeout_result)"
proof -
  from execute_command_token[OF ex tok] obtain u s2 tr1 f s4 where
    cc: "create_credential env (store_client_secret secret self) = (Continue u, s2, tr1)"
    and cr: "credential s2 = Some c" and sc: "sc = scopes (auth_config self)"
    and at: "acquire_token env (s2\<lparr>device_code_info := None\<rparr>) = (f, s4, [GetToken c sc])"
    by blast
  let ?s3 = "s2\<lparr>device_code_info := None\<rparr>"
  have ac: "auth_config s2 = auth_config self"
    using create_credential_frame(1)[OF cc] by (simp add: store_client_secret_def)
  have c3: "credential ?s3 = Some c" using cr by simp
  have d3: "device_code_info ?s3 = None" by simp
  have g3: "get_token env c (scopes (auth_config ?s3)) = get_token env c sc"
    using sc ac by simp
  have o3: "outcome (get_token env c (scopes (auth_config ?s3))) = Inl e"
    using out by (simp only: g3)
  have ret: "\<forall>r0. f = Return r0 \<longrightarrow> r = Inr r0"
  proof (intro allI impI)
    fix r0
    assume "f = Return r0"
    with execute_command_eq[OF cc at, of command "method" "data"] ex
    show "r = Inr r0" by simp
  qed
  show ?thesis
  proof (intro conjI allI impI)
    fix info
    assume h: "is_Exception (exc_class e) \<and> prompted c (get_token env c sc) = Some info"
    from h have ie: "is_Exception (exc_class e)" by (elim conjE)
    from h have "prompted c (get_token env c sc) = Some info" by (elim conjE)
    then have "prompted c (get_token env c (scopes (auth_config ?s3))) = Some info"
      by (simp only: g3)
    from acquire_token_prompted_result[OF c3 o3 ie this] at
    have "f = Return (device_code_result info)" by simp
    with ret show "r = Inr (device_code_result info)" by blast
  next
    assume h: "exc_class e = AsyncioTimeoutError \<and> prompted c (get_token env c sc) = None"
    from h have cls: "exc_class e = AsyncioTimeoutError" by (elim conjE)
    from h have "prompted c (get_token env c sc) = None" by (elim conjE)
    then have "prompted c (get_token env c (scopes (auth_config ?s3))) = None"
      by (simp only: g3)
    from acquire_token_timeout_result[OF c3 d3 o3 cls this] at
    have "f = Return timeout_result" by simp
    with ret show "r = Inr timeout_result" by blast
  qed
qed

text \<open>
  C5, as the code has it. The stored device code is reset on every call that reaches token
  acquisition, after the secret has been stored and the credential created and immediately
  before the token is requested. For every call on an object the program can hold, and
  every token request of that call: the object afterwards holds the device code that the
  provider handed over during this call, or none; the result, the object and the calls made
  are the same whatever device code was stored before the call; and when the acquisition
  fails, the result names the device code of this call, or, after a timeout without one,
  reports the timeout. No device code of an earlier call survives into token acquisition,
  its result or the object after it. The return for the missing client secret comes before
  the reset, but it belongs to the custom mode, in which the object never holds a device
  code, neither before nor after a call. A call that requests no token (that return, an
  exception while the credential is constructed) leaves the stored device code as it was.
\<close>

theorem device_code_info_reset_before_acquisition:
  assumes re: "reachable settings self"
      and ex: "execute_command env self command method data secret = (r, self', tr)"
  shows "(\<forall>c sc. GetToken c sc \<in> set tr \<longrightarrow>
            device_code_info self' = prompted c (get_token env c sc)
            \<and> (\<forall>old. execute_command env (self\<lparr>device_code_info := old\<rparr>)
                         command method data secret = (r, self', tr))
            \<and> (\<forall>e info. outcome (get_token env c sc) = Inl e
                     \<and> is_Exception (exc_class e)
                     \<and> prompted c (get_token env c sc) = Some info \<longrightarrow>
                  r = Inr (device_code_result info))
            \<and> (\<forall>e. outcome (get_token env c sc) = Inl e
                     \<and> exc_class e = AsyncioTimeoutError
                     \<and> prompted c (get_token env c sc) = None \<longrightarrow>
                  r = Inr timeout_result))
       \<and> (mode (auth_config self) = ''custom'' \<longrightarrow>
            device_code_info self = None \<and> device_code_info self' = None)
       \<and> ((\<forall>c sc. GetToken c sc \<notin> set tr) \<longrightarrow>
            device_code_info self' = device_code_info self)"
proof (intro conjI allI impI)
  fix c sc
  assume tok: "GetToken c sc \<in> set tr"
  from execute_command_device_code_info[OF ex] tok
  show "device_code_info self' = prompted c (get_token env c sc)" by blast
  fix old
  show "execute_command env (self\<lparr>device_code_info := old\<rparr>) command method data secret
          = (r, self', tr)"
    by (rule execute_command_forgets_device_code[OF ex tok])
next
  fix c sc e info
  assume tok: "GetToken c sc \<in> set tr"
    and h: "outcome (get_token env c sc) = Inl e \<and> is_Exception (exc_class e)
            \<and> prompted c (get_token env c sc) = Some info"
  from h have out: "outcome (get_token env c sc) = Inl e" by (elim conjE)
  from execute_command_failed_acquisition[OF ex tok out] h
  show "r = Inr (device_code_result info)" by blast
next
  fix c sc e
  assume tok: "GetToken c sc \<in> set tr"
    and h: "outcome (get_token env c sc) = Inl e \<and> exc_class e = AsyncioTimeoutError
            \<and> prompted c (get_token env c sc) = None"
  from h have out: "outcome (get_token env c sc) = Inl e" by (elim conjE)
  from execute_command_failed_acquisition[OF ex tok out] h
  show "r = Inr timeout_result" by blast
next
  assume cu: "mode (auth_config self) = ''custom''"
  from reachable_custom_no_device_code[OF re cu]
  show "device_code_info self = None" by simp
  have "reachable settings self'" using re ex by (rule reachable.call)
  moreover have "mode (auth_config self') = ''custom''"
    using execute_command_frame(1)[OF ex] cu by simp
  ultimately show "device_code_info self' = None"
    using reachable_custom_no_device_code by blast
next
  assume "\<forall>c sc. GetToken c sc \<notin> set tr"
  with execute_command_device_code_info[OF ex]
  show "device_code_info self' = device_code_info self" by blast
qed


theorem device_code_info_reset_before_acquisition_witness:
  "fst (execute_command
       (prompting_env (''https://microsoft.com/devicelogin'', ''NEW-456'', 900)
          (Inl (PyExc AsyncioTimeoutError [])) (Inl (PyExc OtherException ''unreachable'')))
       ((GraphService_init public_settings)
          \<lparr>device_code_info := Some \<lparr>verification_uri = ''https://microsoft.com/devicelogin'',
                                    user_code = ''OLD-123'', expires_in = 900\<rparr>\<rparr>)
       ''me'' ''GET'' None None)
     = Inr (device_code_result \<lparr>verification_uri = ''https://microsoft.com/devicelogin'',
                                 user_code = ''NEW-456'', expires_in = 900\<rparr>)
   \<and> device_code_info (fst (snd (execute_command
       (prompting_env (''https://microsoft.com/devicelogin'', ''NEW-456'', 900)
          (Inl (PyExc AsyncioTimeoutError [])) (Inl (PyExc OtherException ''unreachable'')))
       ((GraphService_init public_settings)
          \<lparr>device_code_info := Some \<lparr>verification_uri = ''https://microsoft.com/devicelogin'',
                                    user_code = ''OLD-123'', expires_in = 900\<rparr>\<rparr>)
       ''me'' ''GET'' None None)))
     = Some \<lparr>verification_uri = ''https://microsoft.com/devicelogin'',
             user_code = ''NEW-456'', expires_in = 900\<rparr>
   \<and> execute_command
       (prompting_env (''https://microsoft.com/devicelogin'', ''NEW-456'', 900)
          (Inl (PyExc AsyncioTimeoutError [])) (Inl (PyExc OtherException ''unreachable'')))
       ((GraphService_init public_settings)
          \<lparr>device_code_info := Some \<lparr>verification_uri = ''https://microsoft.com/devicelogin'',
                                    user_code = ''OLD-123'', expires_in = 900\<rparr>\<rparr>
          \<lparr>device_code_info := None\<rparr>)
       ''me'' ''GET'' None None
     = execute_command
       (prompting_env (''https://microsoft.com/devicelogin'', ''NEW-456'', 900)
          (Inl (PyExc AsyncioTimeoutError [])) (Inl (PyExc OtherException ''unreachable'')))
       ((GraphService_init public_settings)
          \<lparr>device_code_info := Some \<lparr>verification_uri = ''https://microsoft.com/devicelogin'',
                                    user_code = ''OLD-123'', expires_in = 900\<rparr>\<rparr>)
       ''me'' ''GET'' None None
   \<and> device_code_info (fst (snd (execute_command
       ((plain_env (Inr ''tok'') (Inl (PyExc OtherException ''unreachable'')))
          \<lparr>construct := (\<lambda>c. Some (PyExc OtherException ''constructor failed''))\<rparr>)
       ((GraphService_init public_settings)
          \<lparr>device_code_info := Some \<lparr>verification_uri = ''https://microsoft.com/devicelogin'',
                                    user_code = ''OLD-123'', expires_in = 900\<rparr>\<rparr>)
       ''me'' ''GET'' None None)))
     = Some \<lparr>verification_uri = ''https://microsoft.com/devicelogin'',
             user_code = ''OLD-123'', expires_in = 900\<rparr>
   \<and> fst (execute_command
       (plain_env (Inl (PyExc AsyncioTimeoutError [])) (Inl (PyExc OtherException ''unreachable'')))
       ((GraphService_init public_settings)
          \<lparr>device_code_info := Some \<lparr>verification_uri = ''https://microsoft.com/devicelogin'',
                                    user_code = ''OLD-123'', expires_in = 900\<rparr>\<rparr>)
       ''me'' ''GET'' None None)
     = Inr timeout_result
   \<and> device_code_info (GraphService_init app_settings) = None
   \<and> device_code_info (fst (snd (execute_command
       (plain_env (Inr ''tok'') (Inl (PyExc OtherException ''unreachable'')))
       (GraphService_init app_settings) ''users'' ''GET'' None None)))
     = None"
proof -
  let ?D = "prompting_env (''https://microsoft.com/devicelogin'', ''OLD-123'', 900)
          (Inl (PyExc OtherException ''AADSTS70020: the code has expired''))
          (Inl (PyExc OtherException ''unreachable''))"
  let ?E = "prompting_env (''https://microsoft.com/devicelogin'', ''NEW-456'', 900)
          (Inl (PyExc AsyncioTimeoutError [])) (Inl (PyExc OtherException ''unreachable''))"
  let ?F = "(plain_env (Inr ''tok'') (Inl (PyExc OtherException ''unreachable'')))
          \<lparr>construct := (\<lambda>c. Some (PyExc OtherException ''constructor failed''))\<rparr>"
  let ?G = "plain_env (Inr ''tok'') (Inl (PyExc OtherException ''unreachable''))"
  let ?S = "(GraphService_init public_settings)
          \<lparr>device_code_info := Some \<lparr>verification_uri = ''https://microsoft.com/devicelogin'',
                                    user_code = ''OLD-123'', expires_in = 900\<rparr>\<rparr>"
  let ?new = "\<lparr>verification_uri = ''https://microsoft.com/devicelogin'',
               user_code = ''NEW-456'', expires_in = 900\<rparr>"
  let ?c = "DeviceCodeCredential ''14d82eec-204b-4c2f-b7e8-296a70dab67e'' ''common''"
  let ?sc = "[''https://graph.microsoft.com/.default'']"
  let ?V = "execute_command ?D (GraphService_init public_settings) ''me'' ''GET'' None None"
  let ?X = "execute_command ?E ?S ''me'' ''GET'' None None"
  let ?Z = "execute_command ?F ?S ''me'' ''GET'' None None"
  let ?T = "plain_env (Inl (PyExc AsyncioTimeoutError []))
          (Inl (PyExc OtherException ''unreachable''))"
  let ?Y = "execute_command ?T ?S ''me'' ''GET'' None None"
  let ?W = "execute_command ?G (GraphService_init app_settings) ''users'' ''GET'' None None"
  have v: "?V = (fst ?V, fst (snd ?V), snd (snd ?V))" by simp
  have x: "?X = (fst ?X, fst (snd ?X), snd (snd ?X))" by simp
  have z: "?Z = (fst ?Z, fst (snd ?Z), snd (snd ?Z))" by simp
  have y: "?Y = (fst ?Y, fst (snd ?Y), snd (snd ?Y))" by simp
  have yt: "GetToken ?c ?sc \<in> set (snd (snd ?Y))" by (simp add: run_defs)
  have q: "outcome (get_token ?T ?c ?sc) = Inl (PyExc AsyncioTimeoutError [])
         \<and> exc_class (PyExc AsyncioTimeoutError []) = AsyncioTimeoutError
         \<and> prompted ?c (get_token ?T ?c ?sc) = None"
    by (simp add: prompted_def plain_env_def)
  have w: "?W = (fst ?W, fst (snd ?W), snd (snd ?W))" by simp
  have vs: "fst (snd ?V) = ?S" by (simp add: run_defs)
  have "reachable public_settings (fst (snd ?V))"
    by (rule reachable.call[OF reachable.init v])
  then have re: "reachable public_settings ?S" by (simp only: vs)
  have xt: "GetToken ?c ?sc \<in> set (snd (snd ?X))" by (simp add: run_defs)
  have zt: "snd (snd ?Z) = [Construct ?c]" by (simp add: run_defs)
  have p: "prompted ?c (get_token ?E ?c ?sc) = Some ?new"
    by (simp add: prompted_def prompting_env_def)
  have o: "outcome (get_token ?E ?c ?sc) = Inl (PyExc AsyncioTimeoutError [])
         \<and> is_Exception (exc_class (PyExc AsyncioTimeoutError []))
         \<and> prompted ?c (get_token ?E ?c ?sc) = Some ?new"
    by (simp add: prompted_def prompting_env_def is_Exception_def)
  have dS: "device_code_info ?S =
      Some \<lparr>verification_uri = ''https://microsoft.com/devicelogin'',
             user_code = ''OLD-123'', expires_in = 900\<rparr>"
    by simp
  have cu: "mode (auth_config (GraphService_init app_settings)) = ''custom''"
    by (simp add: GraphService_init_def get_auth_config_def app_settings_def py_or_def)
  note tx = device_code_info_reset_before_acquisition[OF re x]
  from tx xt have a: "device_code_info (fst (snd ?X)) = prompted ?c (get_token ?E ?c ?sc)"
    by blast
  from tx xt have b: "execute_command ?E (?S\<lparr>device_code_info := None\<rparr>)
                         ''me'' ''GET'' None None = (fst ?X, fst (snd ?X), snd (snd ?X))"
    by blast
  from tx xt o have c': "fst ?X = Inr (device_code_result ?new)"
    by blast
  from device_code_info_reset_before_acquisition[OF re y] yt q
  have f: "fst ?Y = Inr timeout_result"
    by blast
  from device_code_info_reset_before_acquisition[OF re z] zt
  have d: "device_code_info (fst (snd ?Z)) = device_code_info ?S" by simp
  from device_code_info_reset_before_acquisition[OF reachable.init w] cu
  have e: "device_code_info (GraphService_init app_settings) = None
         \<and> device_code_info (fst (snd ?W)) = None"
    by blast
  have a': "device_code_info (fst (snd ?X)) = Some ?new" using a by (simp only: p)
  have b': "execute_command ?E (?S\<lparr>device_code_info := None\<rparr>) ''me'' ''GET'' None None = ?X"
    using b by (simp only: x[symmetric])
  have d': "device_code_info (fst (snd ?Z)) =
      Some \<lparr>verification_uri = ''https://microsoft.com/devicelogin'',
             user_code = ''OLD-123'', expires_in = 900\<rparr>"
    using d by (simp only: dS)
  from c' a' b' d' f e show ?thesis by (intro conjI) (elim conjE, assumption)+
qed

text \<open>
  C5 as stated puts the reset before credential creation and before any early return. With
  the public client, a first call during which the provider hands over the code \<open>OLD-123\<close>
  and token acquisition then fails leaves that device code on the object and discards the
  credential. In the next call the credential is created while \<open>OLD-123\<close> is still stored;
  and when that construction raises, the call returns with \<open>OLD-123\<close> still on the object.
\<close>

theorem device_code_info_survives_credential_creation:
  "fst (snd (execute_command
       (prompting_env (''https://microsoft.com/devicelogin'', ''OLD-123'', 900)
          (Inl (PyExc OtherException ''AADSTS70020: the code has expired''))
          (Inl (PyExc OtherException ''unreachable'')))
       (GraphService_init public_settings) ''me'' ''GET'' None None))
     = (GraphService_init public_settings)
          \<lparr>device_code_info := Some \<lparr>verification_uri = ''https://microsoft.com/devicelogin'',
                                    user_code = ''OLD-123'', expires_in = 900\<rparr>\<rparr>
   \<and> create_credential
       (plain_env (Inr ''tok'') (Inl (PyExc OtherException ''unreachable'')))
       (store_client_secret None
          ((GraphService_init public_settings)
             \<lparr>device_code_info := Some \<lparr>verification_uri = ''https://microsoft.com/devicelogin'',
                                       user_code = ''OLD-123'', expires_in = 900\<rparr>\<rparr>))
     = (Continue (),
        (GraphService_init public_settings)
          \<lparr>device_code_info := Some \<lparr>verification_uri = ''https://microsoft.com/devicelogin'',
                                    user_code = ''OLD-123'', expires_in = 900\<rparr>,
           credential := Some (DeviceCodeCredential ''14d82eec-204b-4c2f-b7e8-296a70dab67e''
                                 ''common'')\<rparr>,
        [Construct (DeviceCodeCredential ''14d82eec-204b-4c2f-b7e8-296a70dab67e'' ''common'')])
   \<and> execute_command
       ((plain_env (Inr ''tok'') (Inl (PyExc OtherException ''unreachable'')))
          \<lparr>construct := (\<lambda>c. Some (PyExc OtherException ''constructor failed''))\<rparr>)
       ((GraphService_init public_settings)
          \<lparr>device_code_info := Some \<lparr>verification_uri = ''https://microsoft.com/devicelogin'',
                                    user_code = ''OLD-123'', expires_in = 900\<rparr>\<rparr>)
       ''me'' ''GET'' None None
     = (Inr [(''success'', JBool False), (''error'', JStr ''constructor failed'')],
        (GraphService_init public_settings)
          \<lparr>device_code_info := Some \<lparr>verification_uri = ''https://microsoft.com/devicelogin'',
                                    user_code = ''OLD-123'', expires_in = 900\<rparr>\<rparr>,
        [Construct (DeviceCodeCredential ''14d82eec-204b-4c2f-b7e8-296a70dab67e'' ''common'')])"
  by (simp add: run_defs)

section \<open>Exceptions and the outer handler\<close>

lemma create_credential_Return:
  assumes "create_credential env s = (Return r, s', tr)"
  shows "map_of r ''success'' = Some (JBool False)"
  using assms
  by (auto simp: create_credential_def new_credential_def priv_get_client_secret_def
      dict_get_def split: if_splits option.splits)

lemma create_credential_Raise:
  assumes "create_credential env s = (Raise e, s', tr)"
  shows "\<exists>c. construct env c = Some e"
  using assms
  by (auto simp: create_credential_def new_credential_def Let_def
      split: if_splits option.splits)

lemma acquire_token_Return:
  assumes "acquire_token env s = (Return r, s', tr)"
  shows "map_of r ''success'' = Some (JBool False)"
proof -
  obtain out s1 tr1 where rt: "request_token env s = (out, s1, tr1)"
    by (metis prod_cases3)
  show ?thesis
  proof (cases out)
    case (Inr token)
    with rt assms show ?thesis by (simp add: acquire_token_def)
  next
    case (Inl e)
    with rt assms show ?thesis
      by (cases "device_code_info s1")
         (auto simp: acquire_token_def Let_def device_code_result_def timeout_result_def
            invalid_client_secret_result_def authentication_failed_result_def
            split: if_splits)
  qed
qed

lemma acquire_token_Raise:
  assumes "acquire_token env s = (Raise e, s', tr)"
  shows "\<not> is_Exception (exc_class e)
       \<and> (\<exists>c sc. outcome (get_token env c sc) = Inl e)"
proof -
  obtain out s1 tr1 where rt: "request_token env s = (out, s1, tr1)"
    by (metis prod_cases3)
  show ?thesis
  proof (cases out)
    case (Inr token)
    with rt assms show ?thesis by (simp add: acquire_token_def)
  next
    case (Inl e')
    with rt assms have e: "e' = e" "\<not> is_Exception (exc_class e)"
      by (cases "device_code_info s1"; auto simp: acquire_token_def Let_def split: if_splits)+
    show ?thesis
    proof (cases "credential s")
      case None
      with rt Inl e show ?thesis by (auto simp: request_token_def is_Exception_def)
    next
      case (Some c)
      with rt Inl e request_token_Some[OF Some, of env] show ?thesis by auto
    qed
  qed
qed

lemma dispatch_Return:
  assumes "dispatch env command method data token = (Return r, tr)"
  shows "map_of r ''success'' = Some (JBool False)"
  using assms
  by (auto simp: dispatch_def call_client_def Let_def split: if_splits sum.splits)

lemma dispatch_Raise:
  assumes "dispatch env command method data token = (Raise e, tr)"
  shows "\<exists>req. send env req = Inl e"
  using assms
  by (auto simp: dispatch_def call_client_def Let_def split: if_splits sum.splits)

lemma dispatch_Continue:
  assumes "dispatch env command method data token = (Continue response, tr)"
  shows "\<exists>req. send env req = Inr response"
  using assms
  by (auto simp: dispatch_def call_client_def Let_def split: if_splits sum.splits)

lemma normalize_response_Inr:
  assumes "normalize_response env response = Inr r"
  shows "\<exists>b. map_of r ''success'' = Some (JBool b)"
  using assms
  by (auto simp: normalize_response_def split: if_splits sum.splits)

lemma normalize_response_Inl:
  assumes "normalize_response env response = Inl e"
  shows "json_result response = Inl e \<or> exc_class e = AttributeError"
  using assms
  by (auto simp: normalize_response_def method_get_def split: if_splits sum.splits json.splits)


text \<open>What the body of the outer \<open>try\<close> returns, and where what it raises comes from.\<close>

lemma execute_body_outcome:
  "(\<forall>r. fst (execute_body env self command method data secret) = Inr r \<longrightarrow>
        (\<exists>b. map_of r ''success'' = Some (JBool b)))
   \<and> (\<forall>e. fst (execute_body env self command method data secret) = Inl e \<longrightarrow>
        (\<exists>c. construct env c = Some e)
        \<or> (\<exists>c sc. outcome (get_token env c sc) = Inl e)
        \<or> (\<exists>req. send env req = Inl e)
        \<or> (\<exists>req response. send env req = Inr response \<and> json_result response = Inl e)
        \<or> exc_class e = AttributeError)"
proof -
  obtain f1 s2 tr1 where cc:
    "create_credential env (store_client_secret secret self) = (f1, s2, tr1)"
    by (metis prod_cases3)
  obtain f s4 tr2 where at:
    "acquire_token env (s2\<lparr>device_code_info := None\<rparr>) = (f, s4, tr2)"
    by (metis prod_cases3)
  show ?thesis
  proof (cases f1)
    case (Return r0)
    with cc create_credential_Return[of env _ r0 s2 tr1] show ?thesis
      by (auto simp: execute_body_def)
  next
    case (Raise e0)
    with cc create_credential_Raise[of env _ e0 s2 tr1] show ?thesis
      by (auto simp: execute_body_def)
  next
    case c1: (Continue u)
    show ?thesis
    proof (cases f)
      case (Return r0)
      with cc c1 at acquire_token_Return[of env _ r0 s4 tr2] show ?thesis
        by (auto simp: execute_body_def)
    next
      case (Raise e0)
      with cc c1 at acquire_token_Raise[of env _ e0 s4 tr2] show ?thesis
        by (auto simp: execute_body_def)
    next
      case c2: (Continue token)
      obtain f3 tr3 where di: "dispatch env command method data token = (f3, tr3)"
        by (metis surj_pair)
      show ?thesis
      proof (cases f3)
        case (Return r0)
        with cc c1 at c2 di dispatch_Return[of env command "method" "data" token r0 tr3]
        show ?thesis by (auto simp: execute_body_def)
      next
        case (Raise e0)
        with cc c1 at c2 di dispatch_Raise[of env command "method" "data" token e0 tr3]
        show ?thesis by (auto simp: execute_body_def)
      next
        case (Continue response)
        with di dispatch_Continue obtain req where rq: "send env req = Inr response"
          by blast
        have eq: "fst (execute_body env self command method data secret)
                    = normalize_response env response"
          using cc c1 at c2 di Continue by (simp add: execute_body_def)
        show ?thesis
        proof (cases "normalize_response env response")
          case (Inr r0)
          with eq normalize_response_Inr[OF Inr] show ?thesis by auto
        next
          case (Inl e0)
          with eq normalize_response_Inl[OF Inl] rq show ?thesis by auto
        qed
      qed
    qed
  qed
qed

text \<open>
  C2, as the code has it. For every input, every state of the object and every behaviour of
  the outside world, an exception leaves \<open>execute_command\<close> only if its class is not under
  \<open>Exception\<close>, and then it is the exception that the body raised. Every dictionary that is
  returned has a boolean \<open>success\<close>. Every exception of a class under \<open>Exception\<close> that
  the body raises (at credential construction, token acquisition, the HTTP call or the
  parsing of the response) becomes the dictionary with \<open>success\<close> false and the
  exception's text as \<open>error\<close>. So when every exception that the credential provider and the
  remote API raise is of a class under \<open>Exception\<close>, the call returns a dictionary.
\<close>

theorem exceptions_become_results:
  "(\<forall>e. fst (execute_command env self command method data secret) = Inl e \<longrightarrow>
        exc_class e = BaseExceptionOnly
        \<and> fst (execute_body env self command method data secret) = Inl e)
   \<and> (\<forall>r. fst (execute_command env self command method data secret) = Inr r \<longrightarrow>
        (\<exists>b. map_of r ''success'' = Some (JBool b)))
   \<and> (\<forall>e. fst (execute_body env self command method data secret) = Inl e
            \<and> is_Exception (exc_class e) \<longrightarrow>
        fst (execute_command env self command method data secret) =
          Inr [(''success'', JBool False), (''error'', JStr (exc_str e))])
   \<and> ((\<forall>c e. construct env c = Some e \<longrightarrow> is_Exception (exc_class e))
       \<and> (\<forall>c sc e. outcome (get_token env c sc) = Inl e \<longrightarrow> is_Exception (exc_class e))
       \<and> (\<forall>req e. send env req = Inl e \<longrightarrow> is_Exception (exc_class e))
       \<and> (\<forall>req response e. send env req = Inr response \<and> json_result response = Inl e
              \<longrightarrow> is_Exception (exc_class e))
       \<longrightarrow> (\<exists>r. fst (execute_command env self command method data secret) = Inr r))"
proof -
  let ?b = "fst (execute_body env self command method data secret)"
  have ec: "fst (execute_command env self command method data secret) = handle_exception ?b"
    by (simp add: execute_command_def split: prod.splits)
  note bo = execute_body_outcome[of env self command "method" "data" secret]
  show ?thesis
  proof (cases ?b)
    case (Inr r0)
    with bo have "\<exists>b. map_of r0 ''success'' = Some (JBool b)" by simp
    with ec Inr show ?thesis by (auto simp: handle_exception_def)
  next
    case (Inl e0)
    show ?thesis
    proof (cases "is_Exception (exc_class e0)")
      case True
      with ec Inl show ?thesis by (auto simp: handle_exception_def)
    next
      case False
      then have cls: "exc_class e0 = BaseExceptionOnly" "exc_class e0 \<noteq> AttributeError"
        by (simp_all add: is_Exception_def)
      from bo Inl cls have src:
        "(\<exists>c. construct env c = Some e0)
        \<or> (\<exists>c sc. outcome (get_token env c sc) = Inl e0)
        \<or> (\<exists>req. send env req = Inl e0)
        \<or> (\<exists>req response. send env req = Inr response \<and> json_result response = Inl e0)"
        by simp
      have e: "fst (execute_command env self command method data secret) = Inl e0"
        using ec Inl False by (simp add: handle_exception_def)
      show ?thesis
      proof (intro conjI allI impI)
        fix e assume "fst (execute_command env self command method data secret) = Inl e"
        with e Inl cls show "exc_class e = BaseExceptionOnly" "?b = Inl e" by simp_all
      next
        fix r assume "fst (execute_command env self command method data secret) = Inr r"
        with e show "\<exists>b. map_of r ''success'' = Some (JBool b)" by simp
      next
        fix e assume "?b = Inl e \<and> is_Exception (exc_class e)"
        with Inl False
        show "fst (execute_command env self command method data secret) =
                Inr [(''success'', JBool False), (''error'', JStr (exc_str e))]"
          by simp
      next
        assume "(\<forall>c e. construct env c = Some e \<longrightarrow> is_Exception (exc_class e))
       \<and> (\<forall>c sc e. outcome (get_token env c sc) = Inl e \<longrightarrow> is_Exception (exc_class e))
       \<and> (\<forall>req e. send env req = Inl e \<longrightarrow> is_Exception (exc_class e))
       \<and> (\<forall>req response e. send env req = Inr response \<and> json_result response = Inl e
              \<longrightarrow> is_Exception (exc_class e))"
        with src False have False by blast
        then show "\<exists>r. fst (execute_command env self command method data secret) = Inr r" ..
      qed
    qed
  qed
qed


theorem exceptions_become_results_witness:
  "fst (execute_command
          (plain_env (Inr ''tok'') (Inl (PyExc OtherException ''connection refused'')))
          (GraphService_init public_settings) ''me'' ''GET'' None None)
     = Inr [(''success'', JBool False), (''error'', JStr ''connection refused'')]
   \<and> (\<exists>r. fst (execute_command
          (plain_env (Inr ''tok'') (Inl (PyExc OtherException ''connection refused'')))
          (GraphService_init public_settings) ''me'' ''GET'' None None) = Inr r)"
proof -
  let ?E = "plain_env (Inr ''tok'') (Inl (PyExc OtherException ''connection refused''))"
  let ?S = "GraphService_init public_settings"
  let ?e = "PyExc OtherException ''connection refused''"
  have b: "fst (execute_body ?E ?S ''me'' ''GET'' None None) = Inl ?e
           \<and> is_Exception (exc_class ?e)"
    by (simp add: run_defs)
  have h: "(\<forall>c e. construct ?E c = Some e \<longrightarrow> is_Exception (exc_class e))
       \<and> (\<forall>c sc e. outcome (get_token ?E c sc) = Inl e \<longrightarrow> is_Exception (exc_class e))
       \<and> (\<forall>req e. send ?E req = Inl e \<longrightarrow> is_Exception (exc_class e))
       \<and> (\<forall>req response e. send ?E req = Inr response \<and> json_result response = Inl e
              \<longrightarrow> is_Exception (exc_class e))"
    by (simp add: plain_env_def is_Exception_def)
  note th = exceptions_become_results[of ?E ?S "''me''" "''GET''" None None]
  from th have "\<forall>e. fst (execute_body ?E ?S ''me'' ''GET'' None None) = Inl e
            \<and> is_Exception (exc_class e) \<longrightarrow>
        fst (execute_command ?E ?S ''me'' ''GET'' None None) =
          Inr [(''success'', JBool False), (''error'', JStr (exc_str e))]"
    by (elim conjE)
  from this[rule_format, OF b]
  have r: "fst (execute_command ?E ?S ''me'' ''GET'' None None) =
          Inr [(''success'', JBool False), (''error'', JStr ''connection refused'')]"
    by simp
  from th have "(\<forall>c e. construct ?E c = Some e \<longrightarrow> is_Exception (exc_class e))
       \<and> (\<forall>c sc e. outcome (get_token ?E c sc) = Inl e \<longrightarrow> is_Exception (exc_class e))
       \<and> (\<forall>req e. send ?E req = Inl e \<longrightarrow> is_Exception (exc_class e))
       \<and> (\<forall>req response e. send ?E req = Inr response \<and> json_result response = Inl e
              \<longrightarrow> is_Exception (exc_class e))
       \<longrightarrow> (\<exists>r. fst (execute_command ?E ?S ''me'' ''GET'' None None) = Inr r)"
    by (elim conjE)
  from this[rule_format, OF h] r show ?thesis by (intro conjI)
qed

text \<open>
  C2 as stated lets no exception escape. The handler is \<open>except Exception\<close>: when the task is
  cancelled while the HTTP call is awaited, \<open>asyncio.CancelledError\<close> (a \<open>BaseException\<close> that
  is not an \<open>Exception\<close>) leaves \<open>execute_command\<close>.
\<close>

theorem cancellation_escapes:
  "fst (execute_command
          (plain_env (Inr ''tok'') (Inl (PyExc BaseExceptionOnly [])))
          (GraphService_init public_settings) ''me'' ''GET'' None None)
     = Inl (PyExc BaseExceptionOnly [])"
  by (simp add: run_defs)

section \<open>Normalizing the response\<close>

text \<open>
  What the normalization does on the responses it is written for, and on a parsed error
  body that is not a dictionary or whose \<open>error\<close> entry is not a dictionary.
\<close>

lemma normalize_response_well_formed:
  "status_code response = 204 \<Longrightarrow>
     normalize_response env response =
       Inr [(''success'', JBool True),
            (''data'', JDict [(''message'',
               JStr ''Operation completed successfully (no content returned)'')]),
            (''status_code'', JInt 204)]"
  "status_code response \<in> {200, 201, 202} \<Longrightarrow> json_result response = Inr body \<Longrightarrow>
     normalize_response env response =
       Inr [(''success'', JBool True), (''data'', body),
            (''status_code'', JInt (status_code response))]"
  "status_code response \<in> {200, 201, 202} \<Longrightarrow> json_result response = Inl e \<Longrightarrow>
   exc_class e = JSONDecodeError \<Longrightarrow>
     normalize_response env response =
       Inr [(''success'', JBool True),
            (''data'', JDict [(''message'', JStr ''Operation completed successfully''),
                              (''response_text'', JStr (resp_text response))]),
            (''status_code'', JInt (status_code response))]"
  "status_code response \<notin> {200, 201, 202, 204} \<Longrightarrow>
   json_result response = Inr (JDict d) \<Longrightarrow> map_of d ''error'' = Some (JDict err) \<Longrightarrow>
   map_of err ''message'' = Some (JStr message) \<Longrightarrow>
     normalize_response env response =
       Inr [(''success'', JBool False),
            (''error'', JStr (''HTTP '' @ show_int (status_code response) @ '': '' @ message)),
            (''status_code'', JInt (status_code response)),
            (''error_details'', JDict d)]"
  "status_code response \<notin> {200, 201, 202, 204} \<Longrightarrow>
   json_result response = Inr (JDict d) \<Longrightarrow>
   map_of d ''error'' = None \<or>
     (\<exists>err. map_of d ''error'' = Some (JDict err) \<and> map_of err ''message'' = None) \<Longrightarrow>
     normalize_response env response =
       Inr [(''success'', JBool False),
            (''error'', JStr (''HTTP '' @ show_int (status_code response) @ '': ''
                              @ resp_text response)),
            (''status_code'', JInt (status_code response)),
            (''error_details'', JDict d)]"
  "status_code response \<notin> {200, 201, 202, 204} \<Longrightarrow> json_result response = Inl e \<Longrightarrow>
   exc_class e = JSONDecodeError \<Longrightarrow>
     normalize_response env response =
       Inr [(''success'', JBool False),
            (''error'', JStr (''HTTP '' @ show_int (status_code response) @ '': ''
                              @ resp_text response)),
            (''status_code'', JInt (status_code response))]"
  by (auto simp: normalize_response_def method_get_def dict_get_def)

lemma normalize_response_not_a_dictionary:
  assumes "status_code response \<notin> {200, 201, 202, 204}"
      and "json_result response = Inr body"
      and "(\<forall>d. body \<noteq> JDict d)
           \<or> (\<exists>d v. body = JDict d \<and> map_of d ''error'' = Some v \<and> (\<forall>err. v \<noteq> JDict err))"
  shows "\<exists>e. normalize_response env response = Inl e \<and> exc_class e = AttributeError"
  using assms
  by (cases body) (auto simp: normalize_response_def method_get_def dict_get_def
        split: json.splits)

text \<open>
  C7 at a response with status 400 and the JSON body \<open>{"error": "invalid_request"}\<close>: the
  claim gives \<open>success\<close> false, the error \<open>HTTP 400: ...\<close> with the raw body text,
  \<open>status_code\<close> 400 and the parsed body as \<open>error_details\<close>. The code calls \<open>get\<close> on the
  string \<open>invalid_request\<close>; the \<open>AttributeError\<close> reaches the outer handler, and the result
  has neither the status nor the body.
\<close>

theorem error_body_with_string_error:
  "fst (execute_command
          (plain_env (Inr ''tok'')
             (Inr \<lparr>status_code = 400,
                   resp_text = ''{\"error\": \"invalid_request\"}'',
                   json_result = Inr (JDict [(''error'', JStr ''invalid_request'')])\<rparr>))
          (GraphService_init public_settings) ''me'' ''GET'' None None)
     = Inr [(''success'', JBool False),
            (''error'', JStr (CHR 0x27 # ''str'' @ CHR 0x27 # '' object has no attribute ''
                              @ CHR 0x27 # ''get'' @ [CHR 0x27]))]"
  by (simp add: run_defs)

end
